theory Spec2Isabelle
  imports Complex_Main
begin

section \<open>Validation sessions of the subnet validator backend (src/src/server.ts)\<close>

text \<open>
  The handlers of \<^verbatim>\<open>server.ts\<close> are embedded as functions on an explicit store: the three
  Mongoose collections are lists of documents in insertion order, every handler takes the
  store and returns its reply together with the store it leaves behind. The clock
  (\<^verbatim>\<open>new Date()\<close>, in milliseconds) and the identifier drawn by \<^verbatim>\<open>uuidv4()\<close> are
  arguments of the handlers that use them.
\<close>

subsection \<open>JavaScript values and numbers\<close>

text \<open>
  A request body is JSON. The fields a handler inspects with \<^verbatim>\<open>typeof\<close> or
  \<^verbatim>\<open>Array.isArray\<close> are kept as untyped values; \<open>JUndefined\<close> is a field that is absent.
  The other fields carry the type the interfaces of the source declare, \<open>None\<close> when absent.
  \<open>JNum r\<close> is a number of the body, \<open>r\<close> the value of its literal.
\<close>

datatype jsval =
    JUndefined
  | JNull
  | JBool bool
  | JNum rat
  | JStr string
  | JArr "jsval list"
  | JObj "(string \<times> jsval) list"

text \<open>
  A JavaScript number is an IEEE 754 double: a finite value (an exact rational, \<open>Fin 0\<close>
  being \<open>+0\<close>), \<open>-0\<close>, the two infinities or \<open>NaN\<close>.
\<close>

datatype jsnum = Fin rat | NegZero | PosInf | NegInf | NaN

definition pow2 :: "int \<Rightarrow> rat" where
  "pow2 e = (if 0 \<le> e then 2 ^ nat e else 1 / 2 ^ nat (- e))"

text \<open>The position of the leading bit of a positive integer.\<close>

function ilog2 :: "int \<Rightarrow> int" where
  "ilog2 n = (if n < 2 then 0 else ilog2 (n div 2) + 1)"
  by pat_completeness auto
termination
  by (relation "measure nat") auto

declare ilog2.simps [simp del]

text \<open>The binary exponent of a positive rational \<open>x\<close>: \<open>2 ^ e \<le> x < 2 ^ (e + 1)\<close>.\<close>

definition expo :: "rat \<Rightarrow> int" where
  "expo x =
     (if 1 \<le> x then ilog2 \<lfloor>x\<rfloor>
      else (let k = ilog2 \<lfloor>1 / x\<rfloor> in if pow2 (- k) \<le> x then - k else - k - 1))"

text \<open>The nearest integer, a tie going to the even one.\<close>

definition roundEven :: "rat \<Rightarrow> int" where
  "roundEven m =
     (let f = \<lfloor>m\<rfloor>; d = m - of_int f
      in if d < 1 / 2 then f else if 1 / 2 < d then f + 1 else if even f then f else f + 1)"

text \<open>
  Rounding to the nearest double, ties to even: 53 bits of significand, exponents from
  \<open>-1022\<close> (below it the spacing stays \<open>2 ^ -1074\<close>: subnormal numbers) to \<open>1023\<close>; a
  number of \<open>2 ^ 1024\<close> or more, before or after rounding, is an infinity, a result of 0
  keeps the sign of \<open>x\<close>.
\<close>

definition round64 :: "rat \<Rightarrow> jsnum" where
  "round64 x =
     (if x = 0 then Fin 0
      else if pow2 1024 \<le> \<bar>x\<bar> then (if 0 < x then PosInf else NegInf)
      else
        (let q = pow2 (max (expo \<bar>x\<bar>) (- 1022) - 52);
             n = roundEven (\<bar>x\<bar> / q);
             r = of_int n * q
         in if pow2 1024 \<le> r then (if 0 < x then PosInf else NegInf)
            else if n = 0 then (if 0 < x then Fin 0 else NegZero)
            else Fin (if 0 < x then r else - r)))"

fun isInf :: "jsnum \<Rightarrow> bool" where
  "isInf PosInf = True"
| "isInf NegInf = True"
| "isInf _ = False"

fun isZero :: "jsnum \<Rightarrow> bool" where
  "isZero (Fin r) = (r = 0)"
| "isZero NegZero = True"
| "isZero _ = False"

fun signBit :: "jsnum \<Rightarrow> bool" where
  "signBit (Fin r) = (r < 0)"
| "signBit NegZero = True"
| "signBit NegInf = True"
| "signBit _ = False"

fun valOf :: "jsnum \<Rightarrow> rat" where
  "valOf (Fin r) = r"
| "valOf _ = 0"

text \<open>
  The three operations of the handlers, as IEEE 754 has them: the exact result rounded;
  \<open>\<infinity> - \<infinity>\<close>, \<open>0 * \<infinity>\<close>, \<open>0 / 0\<close> and \<open>\<infinity> / \<infinity>\<close> are \<open>NaN\<close>; a sum that is exactly 0 is
  \<open>+0\<close> unless both terms are \<open>-0\<close>; the sign of a product or quotient is the exclusive
  or of the signs.
\<close>

definition jsadd :: "jsnum \<Rightarrow> jsnum \<Rightarrow> jsnum" where
  "jsadd x y =
     (if x = NaN \<or> y = NaN then NaN
      else if isInf x \<and> isInf y then (if x = y then x else NaN)
      else if isInf x then x
      else if isInf y then y
      else if valOf x + valOf y = 0 then (if x = NegZero \<and> y = NegZero then NegZero else Fin 0)
      else round64 (valOf x + valOf y))"

definition jsmul :: "jsnum \<Rightarrow> jsnum \<Rightarrow> jsnum" where
  "jsmul x y =
     (if x = NaN \<or> y = NaN then NaN
      else if isInf x \<or> isInf y then
        (if isZero x \<or> isZero y then NaN
         else if signBit x \<noteq> signBit y then NegInf else PosInf)
      else if isZero x \<or> isZero y then (if signBit x \<noteq> signBit y then NegZero else Fin 0)
      else round64 (valOf x * valOf y))"

definition jsdiv :: "jsnum \<Rightarrow> jsnum \<Rightarrow> jsnum" where
  "jsdiv x y =
     (if x = NaN \<or> y = NaN then NaN
      else if isInf x then
        (if isInf y then NaN else if signBit x \<noteq> signBit y then NegInf else PosInf)
      else if isInf y then (if signBit x \<noteq> signBit y then NegZero else Fin 0)
      else if isZero y then
        (if isZero x then NaN else if signBit x \<noteq> signBit y then NegInf else PosInf)
      else if isZero x then (if signBit x \<noteq> signBit y then NegZero else Fin 0)
      else round64 (valOf x / valOf y))"

text \<open>\<^verbatim>\<open>r > 0\<close>\<close>

fun greaterZero :: "jsnum \<Rightarrow> bool" where
  "greaterZero (Fin r) = (0 < r)"
| "greaterZero PosInf = True"
| "greaterZero _ = False"

text \<open>
  \<^verbatim>\<open>x || 0\<close> on a number that may be absent: undefined, the two zeros and \<open>NaN\<close> are
  falsy.
\<close>

fun orZero :: "jsnum option \<Rightarrow> jsnum" where
  "orZero None = Fin 0"
| "orZero (Some NaN) = Fin 0"
| "orZero (Some NegZero) = Fin 0"
| "orZero (Some x) = x"

subsection \<open>Documents\<close>

datatype sessionState = Pending | InProgress | Completed | Failed

datatype historyStatus = StatusSuccess | StatusFailed | StatusTimeout | StatusError

record AgentPerformance =
  ap_executionTime :: "rat option"
  ap_findingsCount :: "rat option"
  ap_accuracy :: "rat option"
  ap_completionStatus :: "string option"

record MinerResponse =
  mr_minerUid :: rat
  mr_githubUrl :: "string option"
  mr_responseTime :: "rat option"
  mr_success :: "bool option"
  mr_errorMessage :: "string option"
  mr_timestamp :: int
  mr_agentPerformance :: AgentPerformance
  mr_rewardScore :: "rat option"
  mr_rewardReason :: "string option"

record ChallengeInfo =
  ci_projectId :: "string option"
  ci_description :: "string option"
  ci_difficulty :: "string option"
  ci_createdAt :: "int option"
  ci_rawData :: "jsval option"

record GroundTruth =
  gt_reportId :: "string option"
  gt_vulnerabilities :: "string list"
  gt_criticalIssues :: "rat option"
  gt_rawData :: "jsval option"

record SubnetSnapshot =
  ss_netuid :: "rat option"
  ss_block :: "rat option"
  ss_activeValidators :: "rat option"
  ss_activeMiners :: "rat option"
  ss_totalStake :: "rat option"
  ss_emissionPerBlock :: "rat option"
  ss_timestamp :: "int option"

record ValidationMetrics =
  totalQueryTime :: "jsnum option"
  averageRewardScore :: "jsnum option"
  successRate :: "jsnum option"
  failureCount :: "jsnum option"
  validFindings :: "jsnum option"

record ComputedReward =
  cr_minerUid :: jsnum
  cr_score :: jsnum
  cr_timestamp :: int

record ValidationErrorEntry =
  ve_stage :: string
  ve_message :: string
  ve_timestamp :: int
  ve_stackTrace :: "string option"

record Metadata =
  validatorAddress :: "string option"
  configVersion :: "string option"
  remarks :: "string option"

record ValidationSession =
  sessionId :: string
  timestamp :: int
  projectId :: "string option"
  state :: sessionState
  sampledMinerCount :: rat
  sampledMinerUids :: "rat list"
  challengeInfo :: ChallengeInfo
  groundTruth :: GroundTruth
  minerResponses :: "MinerResponse list"
  computedRewards :: "ComputedReward list"
  metrics :: ValidationMetrics
  subnetSnapshot :: SubnetSnapshot
  validationErrors :: "ValidationErrorEntry list"
  metadata :: Metadata

record MinerHistory =
  mh_minerUid :: rat
  mh_sessionId :: string
  mh_rewardScore :: "rat option"
  mh_accuracy :: "rat option"
  mh_timestamp :: int
  mh_status :: historyStatus

record RewardUpdate =
  ru_updateId :: string
  ru_sessionId :: string
  ru_minerUids :: "jsnum list"
  ru_rewards :: "jsnum list"
  ru_timestamp :: int
  ru_confirmed :: bool

record store =
  sessions :: "ValidationSession list"
  minerHistory :: "MinerHistory list"
  rewardUpdates :: "RewardUpdate list"

text \<open>The replies: 400, 404 and 500 are the three failures a handler answers with.\<close>

datatype error = ValidationError | NotFoundError | StoreError

subsection \<open>Store primitives\<close>

text \<open>
  \<^verbatim>\<open>Model.findOneAndUpdate(filter, update)\<close>: the first document of the collection that
  matches the filter is updated; the result is \<open>None\<close> (\<^verbatim>\<open>null\<close>) when no document
  matches, and the collection is then left as it is.
\<close>

fun findOneAndUpdate :: "('a \<Rightarrow> bool) \<Rightarrow> ('a \<Rightarrow> 'a) \<Rightarrow> 'a list \<Rightarrow> 'a list option" where
  "findOneAndUpdate P f [] = None"
| "findOneAndUpdate P f (x # xs) =
     (if P x then Some (f x # xs)
      else (case findOneAndUpdate P f xs of None \<Rightarrow> None | Some ys \<Rightarrow> Some (x # ys)))"

text \<open>
  The positional operator \<^verbatim>\<open>minerResponses.$\<close>: the update applies to the first element
  of the array that matches the condition of the filter.
\<close>

fun updateFirst :: "('a \<Rightarrow> bool) \<Rightarrow> ('a \<Rightarrow> 'a) \<Rightarrow> 'a list \<Rightarrow> 'a list" where
  "updateFirst P f [] = []"
| "updateFirst P f (x # xs) = (if P x then f x # xs else x # updateFirst P f xs)"

text \<open>
  One path of a \<^verbatim>\<open>$set\<close>: a value that is \<^verbatim>\<open>undefined\<close> is dropped from the update
  before it reaches the store (Mongoose 6 and later), so the stored value stays.
\<close>

definition setPath :: "'a option \<Rightarrow> 'a option \<Rightarrow> 'a option" where
  "setPath v old = (case v of None \<Rightarrow> old | Some x \<Rightarrow> Some x)"

text \<open>
  The cast of a \<^verbatim>\<open>[Number]\<close> path of a schema. Numbers are stored as they are. The
  coercions Mongoose applies to other values (numeric strings, booleans) are not modelled:
  any element that is not a number is a cast failure here, which the handlers answer with
  their 500 reply.
\<close>

fun castNumber :: "jsval \<Rightarrow> rat option" where
  "castNumber (JNum n) = Some n"
| "castNumber _ = None"

fun castNumbers :: "jsval list \<Rightarrow> rat list option" where
  "castNumbers [] = Some []"
| "castNumbers (v # vs) =
     (case castNumber v of
        None \<Rightarrow> None
      | Some n \<Rightarrow> (case castNumbers vs of None \<Rightarrow> None | Some ns \<Rightarrow> Some (n # ns)))"

text \<open>
  The numbers of a batch of rewards enter the arithmetic of the handler, so they are taken
  as \<^verbatim>\<open>JSON.parse\<close> delivers them: the double nearest to the literal, an infinity for a
  literal beyond the range of the doubles (\<^verbatim>\<open>1e999\<close>). The cast of the schema keeps them,
  as none of them is \<open>NaN\<close>; an element that is not a number is a cast failure as above.
\<close>

fun castDouble :: "jsval \<Rightarrow> jsnum option" where
  "castDouble (JNum r) = Some (round64 r)"
| "castDouble _ = None"

fun castDoubles :: "jsval list \<Rightarrow> jsnum list option" where
  "castDoubles [] = Some []"
| "castDoubles (v # vs) =
     (case castDouble v of
        None \<Rightarrow> None
      | Some n \<Rightarrow> (case castDoubles vs of None \<Rightarrow> None | Some ns \<Rightarrow> Some (n # ns)))"

subsection \<open>POST /api/validation/start\<close>

definition emptyChallengeInfo :: ChallengeInfo where
  "emptyChallengeInfo =
     \<lparr>ci_projectId = None, ci_description = None, ci_difficulty = None,
      ci_createdAt = None, ci_rawData = None\<rparr>"

definition emptyGroundTruth :: GroundTruth where
  "emptyGroundTruth =
     \<lparr>gt_reportId = None, gt_vulnerabilities = [], gt_criticalIssues = None,
      gt_rawData = None\<rparr>"

definition emptyMetrics :: ValidationMetrics where
  "emptyMetrics =
     \<lparr>totalQueryTime = None, averageRewardScore = None, successRate = None,
      failureCount = None, validFindings = None\<rparr>"

definition emptySnapshot :: SubnetSnapshot where
  "emptySnapshot =
     \<lparr>ss_netuid = None, ss_block = None, ss_activeValidators = None,
      ss_activeMiners = None, ss_totalStake = None, ss_emissionPerBlock = None,
      ss_timestamp = None\<rparr>"

definition emptyPerformance :: AgentPerformance where
  "emptyPerformance =
     \<lparr>ap_executionTime = None, ap_findingsCount = None, ap_accuracy = None,
      ap_completionStatus = None\<rparr>"

text \<open>\<^verbatim>\<open>sampledMinerCount || sampledMinerUids.length\<close>\<close>

fun countOrLength :: "rat option \<Rightarrow> 'a list \<Rightarrow> rat" where
  "countOrLength None xs = of_nat (length xs)"
| "countOrLength (Some c) xs = (if c = 0 then of_nat (length xs) else c)"

text \<open>
  The document \<^verbatim>\<open>new ValidationSession({...})\<close> builds; \<open>timestamp\<close> is the schema's
  default \<^verbatim>\<open>Date.now\<close>.
\<close>

definition newSession ::
  "string \<Rightarrow> int \<Rightarrow> rat \<Rightarrow> rat list \<Rightarrow> string option \<Rightarrow> string option \<Rightarrow> ValidationSession" where
  "newSession sid now cnt uids va cv =
     \<lparr>sessionId = sid, timestamp = now, projectId = None, state = Pending,
      sampledMinerCount = cnt, sampledMinerUids = uids,
      challengeInfo = emptyChallengeInfo, groundTruth = emptyGroundTruth,
      minerResponses = [], computedRewards = [], metrics = emptyMetrics,
      subnetSnapshot = emptySnapshot, validationErrors = [],
      metadata = \<lparr>validatorAddress = va, configVersion = cv, remarks = None\<rparr>\<rparr>"

text \<open>
  \<open>uuid\<close> is the value of \<^verbatim>\<open>uuidv4()\<close>. \<^verbatim>\<open>session.save()\<close> fails on a cast failure
  and on the unique index of \<open>sessionId\<close>; the handler's \<^verbatim>\<open>catch\<close> answers 500.
\<close>

definition createSession ::
  "string \<Rightarrow> int \<Rightarrow> jsval \<Rightarrow> rat option \<Rightarrow> string option \<Rightarrow> string option \<Rightarrow> store
     \<Rightarrow> (error + string) \<times> store" where
  "createSession uuid now sampledUids sampledCount va cv st =
     (case sampledUids of
        JArr vs \<Rightarrow>
          (case castNumbers vs of
             None \<Rightarrow> (Inl StoreError, st)
           | Some uids \<Rightarrow>
               if uuid \<in> set (map sessionId (sessions st)) then (Inl StoreError, st)
               else (Inr uuid,
                     st\<lparr>sessions := sessions st @
                          [newSession uuid now (countOrLength sampledCount vs) uids va cv]\<rparr>))
      | _ \<Rightarrow> (Inl ValidationError, st))"

subsection \<open>POST /api/validation/:sessionId/challenge\<close>

definition recordChallenge ::
  "int \<Rightarrow> string \<Rightarrow> string option \<Rightarrow> string option \<Rightarrow> string option \<Rightarrow> jsval option \<Rightarrow> store
     \<Rightarrow> (error + string) \<times> store" where
  "recordChallenge now sid pid description difficulty rawData st =
     (case pid of
        None \<Rightarrow> (Inl ValidationError, st)
      | Some p \<Rightarrow>
          if p = [] then (Inl ValidationError, st)
          else
            (case findOneAndUpdate (\<lambda>s. sessionId s = sid)
                    (\<lambda>s. s\<lparr>state := InProgress,
                            projectId := Some p,
                            challengeInfo :=
                              \<lparr>ci_projectId = Some p,
                               ci_description =
                                 setPath description (ci_description (challengeInfo s)),
                               ci_difficulty =
                                 setPath difficulty (ci_difficulty (challengeInfo s)),
                               ci_createdAt = Some now,
                               ci_rawData = setPath rawData (ci_rawData (challengeInfo s))\<rparr>\<rparr>)
                    (sessions st) of
               None \<Rightarrow> (Inl NotFoundError, st)
             | Some ss \<Rightarrow> (Inr p, st\<lparr>sessions := ss\<rparr>)))"

subsection \<open>POST /api/validation/:sessionId/ground-truth\<close>

definition recordGroundTruth ::
  "string \<Rightarrow> string option \<Rightarrow> string list option \<Rightarrow> rat option \<Rightarrow> jsval option \<Rightarrow> store
     \<Rightarrow> (error + unit) \<times> store" where
  "recordGroundTruth sid reportId vulnerabilities criticalIssues rawData st =
     (case findOneAndUpdate (\<lambda>s. sessionId s = sid)
             (\<lambda>s. s\<lparr>groundTruth :=
                       \<lparr>gt_reportId = setPath reportId (gt_reportId (groundTruth s)),
                        gt_vulnerabilities =
                          (case vulnerabilities of None \<Rightarrow> [] | Some vs \<Rightarrow> vs),
                        gt_criticalIssues =
                          setPath criticalIssues (gt_criticalIssues (groundTruth s)),
                        gt_rawData = setPath rawData (gt_rawData (groundTruth s))\<rparr>\<rparr>)
             (sessions st) of
        None \<Rightarrow> (Inl NotFoundError, st)
      | Some ss \<Rightarrow> (Inr (), st\<lparr>sessions := ss\<rparr>))"

subsection \<open>POST /api/validation/:sessionId/miner-response\<close>

definition recordMinerResponse ::
  "int \<Rightarrow> string \<Rightarrow> jsval \<Rightarrow> string option \<Rightarrow> rat option \<Rightarrow> bool option \<Rightarrow> string option
     \<Rightarrow> AgentPerformance option \<Rightarrow> store \<Rightarrow> (error + rat) \<times> store" where
  "recordMinerResponse now sid minerUid githubUrl responseTime success errorMessage perf st =
     (case minerUid of
        JNum uid \<Rightarrow>
          (case findOneAndUpdate (\<lambda>s. sessionId s = sid)
                  (\<lambda>s. s\<lparr>minerResponses := minerResponses s @
                          [\<lparr>mr_minerUid = uid, mr_githubUrl = githubUrl,
                            mr_responseTime = responseTime, mr_success = success,
                            mr_errorMessage = errorMessage, mr_timestamp = now,
                            mr_agentPerformance =
                              (case perf of None \<Rightarrow> emptyPerformance | Some a \<Rightarrow> a),
                            mr_rewardScore = None, mr_rewardReason = None\<rparr>]\<rparr>)
                  (sessions st) of
             None \<Rightarrow> (Inl NotFoundError, st)
           | Some ss \<Rightarrow> (Inr uid, st\<lparr>sessions := ss\<rparr>))
      | _ \<Rightarrow> (Inl ValidationError, st))"

subsection \<open>POST /api/validation/:sessionId/miner-reward\<close>

text \<open>\<^verbatim>\<open>rewardScore > 0 ? 'success' : 'failed'\<close>; \<^verbatim>\<open>undefined > 0\<close> is false.\<close>

fun rewardStatus :: "rat option \<Rightarrow> historyStatus" where
  "rewardStatus None = StatusFailed"
| "rewardStatus (Some r) = (if 0 < r then StatusSuccess else StatusFailed)"

text \<open>The filter \<^verbatim>\<open>{ sessionId, 'minerResponses.minerUid': minerUid }\<close>.\<close>

definition hasResponse :: "string \<Rightarrow> rat \<Rightarrow> ValidationSession \<Rightarrow> bool" where
  "hasResponse sid uid s =
     (sessionId s = sid \<and> list_ex (\<lambda>r. mr_minerUid r = uid) (minerResponses s))"

definition setReward :: "rat option \<Rightarrow> string option \<Rightarrow> MinerResponse \<Rightarrow> MinerResponse" where
  "setReward rewardScore rewardReason r =
     r\<lparr>mr_rewardScore := setPath rewardScore (mr_rewardScore r),
       mr_rewardReason := setPath rewardReason (mr_rewardReason r)\<rparr>"

definition recordMinerReward ::
  "int \<Rightarrow> string \<Rightarrow> jsval \<Rightarrow> rat option \<Rightarrow> string option \<Rightarrow> store
     \<Rightarrow> (error + rat \<times> rat option) \<times> store" where
  "recordMinerReward now sid minerUid rewardScore rewardReason st =
     (case minerUid of
        JNum uid \<Rightarrow>
          (case findOneAndUpdate (hasResponse sid uid)
                  (\<lambda>s. s\<lparr>minerResponses :=
                          updateFirst (\<lambda>r. mr_minerUid r = uid)
                            (setReward rewardScore rewardReason) (minerResponses s)\<rparr>)
                  (sessions st) of
             None \<Rightarrow> (Inl NotFoundError, st)
           | Some ss \<Rightarrow>
               (Inr (uid, rewardScore),
                st\<lparr>sessions := ss,
                   minerHistory := minerHistory st @
                     [\<lparr>mh_minerUid = uid, mh_sessionId = sid, mh_rewardScore = rewardScore,
                       mh_accuracy = None, mh_timestamp = now,
                       mh_status = rewardStatus rewardScore\<rparr>]\<rparr>))
      | _ \<Rightarrow> (Inl ValidationError, st))"

subsection \<open>POST /api/validation/:sessionId/rewards-update\<close>

text \<open>
  \<^verbatim>\<open>minerUids.map((uid, idx) => ({ minerUid: uid, score: rewards[idx], timestamp: new Date() }))\<close>
  on two arrays of the same length.
\<close>

definition zipRewards :: "int \<Rightarrow> jsnum list \<Rightarrow> jsnum list \<Rightarrow> ComputedReward list" where
  "zipRewards now uids rws =
     map (\<lambda>(uid, r). \<lparr>cr_minerUid = uid, cr_score = r, cr_timestamp = now\<rparr>) (zip uids rws)"

text \<open>
  The metrics object the handler assigns to \<^verbatim>\<open>session.metrics\<close>: three keys, computed
  from the rewards and the length of \<^verbatim>\<open>minerUids\<close>. \<^verbatim>\<open>reduce\<close> adds from the left,
  starting at 0. The two lengths are integers far below \<open>2 ^ 53\<close>, so their difference is
  exact.
\<close>

definition batchMetrics :: "nat \<Rightarrow> jsnum list \<Rightarrow> ValidationMetrics" where
  "batchMetrics n rws =
     (let successCount = length (filter greaterZero rws) in
      \<lparr>totalQueryTime = None,
       averageRewardScore = Some (jsdiv (foldl jsadd (Fin 0) rws) (Fin (of_nat n))),
       successRate = Some (jsmul (jsdiv (Fin (of_nat successCount)) (Fin (of_nat n))) (Fin 100)),
       failureCount = Some (Fin (of_nat n - of_nat successCount)),
       validFindings = None\<rparr>)"

text \<open>
  The validation \<^verbatim>\<open>session.save()\<close> runs on the assigned metrics: the cast of a
  \<^verbatim>\<open>Number\<close> path refuses \<open>NaN\<close> (and accepts every other number, the infinities
  included), and \<^verbatim>\<open>save\<close> then throws without writing.
\<close>

definition refused :: "ValidationMetrics \<Rightarrow> bool" where
  "refused m =
     (totalQueryTime m = Some NaN \<or> averageRewardScore m = Some NaN \<or>
      successRate m = Some NaN \<or> failureCount m = Some NaN \<or> validFindings m = Some NaN)"

text \<open>
  \<open>uuid\<close> is the value of \<^verbatim>\<open>uuidv4()\<close>. \<^verbatim>\<open>RewardUpdate.create\<close> fails on a cast
  failure and on the unique index of \<open>updateId\<close>; once it has written the log entry, the
  entry stays whatever follows. \<^verbatim>\<open>findOne\<close>, the two assignments and \<^verbatim>\<open>save\<close>
  rewrite the first session with that id; there is no reply for a missing one. When
  \<^verbatim>\<open>save\<close> throws, the \<^verbatim>\<open>catch\<close> of the handler answers 500 and the session is as
  before.
\<close>

definition recordRewardsBatch ::
  "string \<Rightarrow> int \<Rightarrow> string \<Rightarrow> jsval \<Rightarrow> jsval \<Rightarrow> store \<Rightarrow> (error + string \<times> nat) \<times> store" where
  "recordRewardsBatch uuid now sid minerUids rewards st =
     (case minerUids of
        JArr us \<Rightarrow>
          (case rewards of
             JArr rs \<Rightarrow>
               if length us \<noteq> length rs then (Inl ValidationError, st)
               else
                 (case castDoubles us of
                    None \<Rightarrow> (Inl StoreError, st)
                  | Some uids \<Rightarrow>
                      (case castDoubles rs of
                         None \<Rightarrow> (Inl StoreError, st)
                       | Some rws \<Rightarrow>
                           if uuid \<in> set (map ru_updateId (rewardUpdates st))
                           then (Inl StoreError, st)
                           else
                             (case findOneAndUpdate (\<lambda>s. sessionId s = sid)
                                     (\<lambda>s. s\<lparr>computedRewards := zipRewards now uids rws,
                                             metrics := batchMetrics (length us) rws\<rparr>)
                                     (sessions st) of
                                None \<Rightarrow>
                                  (Inr (uuid, length us),
                                   st\<lparr>rewardUpdates := rewardUpdates st @
                                        [\<lparr>ru_updateId = uuid, ru_sessionId = sid,
                                          ru_minerUids = uids, ru_rewards = rws,
                                          ru_timestamp = now, ru_confirmed = False\<rparr>]\<rparr>)
                              | Some ss \<Rightarrow>
                                  if refused (batchMetrics (length us) rws)
                                  then
                                    (Inl StoreError,
                                     st\<lparr>rewardUpdates := rewardUpdates st @
                                          [\<lparr>ru_updateId = uuid, ru_sessionId = sid,
                                            ru_minerUids = uids, ru_rewards = rws,
                                            ru_timestamp = now, ru_confirmed = False\<rparr>]\<rparr>)
                                  else
                                    (Inr (uuid, length us),
                                     st\<lparr>rewardUpdates := rewardUpdates st @
                                          [\<lparr>ru_updateId = uuid, ru_sessionId = sid,
                                            ru_minerUids = uids, ru_rewards = rws,
                                            ru_timestamp = now, ru_confirmed = False\<rparr>],
                                        sessions := ss\<rparr>))))
           | _ \<Rightarrow> (Inl ValidationError, st))
      | _ \<Rightarrow> (Inl ValidationError, st))"

subsection \<open>POST /api/validation/:sessionId/subnet-snapshot\<close>

definition recordSubnetSnapshot ::
  "int \<Rightarrow> string \<Rightarrow> jsval \<Rightarrow> jsval \<Rightarrow> rat option \<Rightarrow> rat option \<Rightarrow> rat option \<Rightarrow> rat option
     \<Rightarrow> store \<Rightarrow> (error + unit) \<times> store" where
  "recordSubnetSnapshot now sid netuid block activeValidators activeMiners totalStake
       emissionPerBlock st =
     (case netuid of
        JNum n \<Rightarrow>
          (case block of
             JNum b \<Rightarrow>
               (Inr (),
                st\<lparr>sessions :=
                     (case findOneAndUpdate (\<lambda>s. sessionId s = sid)
                             (\<lambda>s. s\<lparr>subnetSnapshot :=
                                \<lparr>ss_netuid = Some n, ss_block = Some b,
                                 ss_activeValidators =
                                   setPath activeValidators
                                     (ss_activeValidators (subnetSnapshot s)),
                                 ss_activeMiners =
                                   setPath activeMiners (ss_activeMiners (subnetSnapshot s)),
                                 ss_totalStake =
                                   setPath totalStake (ss_totalStake (subnetSnapshot s)),
                                 ss_emissionPerBlock =
                                   setPath emissionPerBlock
                                     (ss_emissionPerBlock (subnetSnapshot s)),
                                 ss_timestamp = Some now\<rparr>\<rparr>)
                             (sessions st) of
                        None \<Rightarrow> sessions st
                      | Some ss \<Rightarrow> ss)\<rparr>)
           | _ \<Rightarrow> (Inl ValidationError, st))
      | _ \<Rightarrow> (Inl ValidationError, st))"

subsection \<open>POST /api/validation/:sessionId/error\<close>

definition logError ::
  "int \<Rightarrow> string \<Rightarrow> string option \<Rightarrow> string option \<Rightarrow> string option \<Rightarrow> store
     \<Rightarrow> (error + unit) \<times> store" where
  "logError now sid stage message stackTrace st =
     (case stage of
        None \<Rightarrow> (Inl ValidationError, st)
      | Some stg \<Rightarrow>
          (case message of
             None \<Rightarrow> (Inl ValidationError, st)
           | Some msg \<Rightarrow>
               if stg = [] \<or> msg = [] then (Inl ValidationError, st)
               else
                 (Inr (),
                  st\<lparr>sessions :=
                       (case findOneAndUpdate (\<lambda>s. sessionId s = sid)
                               (\<lambda>s. s\<lparr>validationErrors := validationErrors s @
                                       [\<lparr>ve_stage = stg, ve_message = msg,
                                         ve_timestamp = now,
                                         ve_stackTrace = stackTrace\<rparr>]\<rparr>)
                               (sessions st) of
                          None \<Rightarrow> sessions st
                        | Some ss \<Rightarrow> ss)\<rparr>)))"

subsection \<open>POST /api/validation/:sessionId/complete\<close>

text \<open>\<^verbatim>\<open>metrics?.field\<close> of the request's optional \<^verbatim>\<open>metrics\<close> object.\<close>

definition optField :: "('r \<Rightarrow> 'a option) \<Rightarrow> 'r option \<Rightarrow> 'a option" where
  "optField fld m = (case m of None \<Rightarrow> None | Some r \<Rightarrow> fld r)"

definition patchMetrics :: "ValidationMetrics option \<Rightarrow> ValidationMetrics \<Rightarrow> ValidationMetrics" where
  "patchMetrics m old =
     \<lparr>totalQueryTime = setPath (optField totalQueryTime m) (totalQueryTime old),
      averageRewardScore = setPath (optField averageRewardScore m) (averageRewardScore old),
      successRate = setPath (optField successRate m) (successRate old),
      failureCount = setPath (optField failureCount m) (failureCount old),
      validFindings = setPath (optField validFindings m) (validFindings old)\<rparr>"

definition completeSession ::
  "string \<Rightarrow> ValidationMetrics option \<Rightarrow> store \<Rightarrow> (error + string) \<times> store" where
  "completeSession sid m st =
     (case findOneAndUpdate (\<lambda>s. sessionId s = sid)
             (\<lambda>s. s\<lparr>state := Completed, metrics := patchMetrics m (metrics s)\<rparr>)
             (sessions st) of
        None \<Rightarrow> (Inl NotFoundError, st)
      | Some ss \<Rightarrow> (Inr sid, st\<lparr>sessions := ss\<rparr>))"

subsection \<open>The operations of the session repository\<close>

datatype operation =
    CreateSession string jsval "rat option" "string option" "string option"
  | RecordChallenge string "string option" "string option" "string option" "jsval option"
  | RecordGroundTruth string "string option" "string list option" "rat option" "jsval option"
  | RecordMinerResponse string jsval "string option" "rat option" "bool option"
      "string option" "AgentPerformance option"
  | RecordMinerReward string jsval "rat option" "string option"
  | RecordRewardsBatch string string jsval jsval
  | RecordSubnetSnapshot string jsval jsval "rat option" "rat option" "rat option" "rat option"
  | LogError string "string option" "string option" "string option"
  | CompleteSession string "ValidationMetrics option"

text \<open>The store one request leaves behind, at time \<open>now\<close>.\<close>

fun exec :: "int \<Rightarrow> operation \<Rightarrow> store \<Rightarrow> store" where
  "exec now (CreateSession uuid uids cnt va cv) st =
     snd (createSession uuid now uids cnt va cv st)"
| "exec now (RecordChallenge sid pid description difficulty rawData) st =
     snd (recordChallenge now sid pid description difficulty rawData st)"
| "exec now (RecordGroundTruth sid reportId vulnerabilities criticalIssues rawData) st =
     snd (recordGroundTruth sid reportId vulnerabilities criticalIssues rawData st)"
| "exec now (RecordMinerResponse sid uid url rt ok msg perf) st =
     snd (recordMinerResponse now sid uid url rt ok msg perf st)"
| "exec now (RecordMinerReward sid uid score reason) st =
     snd (recordMinerReward now sid uid score reason st)"
| "exec now (RecordRewardsBatch uuid sid uids rws) st =
     snd (recordRewardsBatch uuid now sid uids rws st)"
| "exec now (RecordSubnetSnapshot sid netuid block av am ts em) st =
     snd (recordSubnetSnapshot now sid netuid block av am ts em st)"
| "exec now (LogError sid stage message trace) st =
     snd (logError now sid stage message trace st)"
| "exec now (CompleteSession sid m) st = snd (completeSession sid m st)"

fun isRecordChallenge :: "operation \<Rightarrow> bool" where
  "isRecordChallenge (RecordChallenge sid pid description difficulty rawData) = True"
| "isRecordChallenge _ = False"

definition emptyStore :: store where
  "emptyStore = \<lparr>sessions = [], minerHistory = [], rewardUpdates = []\<rparr>"

subsection \<open>GET /api/leaderboard\<close>

text \<open>
  The start of the window. \<^verbatim>\<open>getHours\<close>, \<^verbatim>\<open>setHours\<close>, \<^verbatim>\<open>getDate\<close> and
  \<^verbatim>\<open>setDate\<close> work on the local time of the host. ECMAScript defines them with
  \<open>LocalTime(t) = t + LocalTZA(t, true)\<close> and \<open>UTC(t) = t - LocalTZA(t, false)\<close>, where
  \<open>LocalTZA\<close> is the offset of the host's time zone, in milliseconds, at a time given in
  UTC (\<open>true\<close>) or in local time (\<open>false\<close>); it is the argument \<open>tza\<close> here.
  \<^verbatim>\<open>d.setHours(d.getHours() - 24)\<close> keeps the minutes, seconds and milliseconds of the
  local time and the day, so it makes the local time that is 24 hours of 3600000 ms
  earlier, and stores \<open>UTC\<close> of it; \<^verbatim>\<open>d.setDate(d.getDate() - k)\<close> keeps the time within
  the day and moves the day number by \<open>k\<close>, so it makes the local time that is \<open>k\<close> days of
  86400000 ms earlier. Any other \<open>timeRange\<close> leaves \<open>startDate\<close> at the current time.
\<close>

definition LocalTime :: "(bool \<Rightarrow> int \<Rightarrow> int) \<Rightarrow> int \<Rightarrow> int" where
  "LocalTime tza t = t + tza True t"

definition UTC :: "(bool \<Rightarrow> int \<Rightarrow> int) \<Rightarrow> int \<Rightarrow> int" where
  "UTC tza t = t - tza False t"

definition startDate :: "(bool \<Rightarrow> int \<Rightarrow> int) \<Rightarrow> int \<Rightarrow> string \<Rightarrow> int" where
  "startDate tza now timeRange =
     (if timeRange = ''24h'' then UTC tza (LocalTime tza now - 24 * 3600000)
      else if timeRange = ''7d'' then UTC tza (LocalTime tza now - 7 * 86400000)
      else if timeRange = ''30d'' then UTC tza (LocalTime tza now - 30 * 86400000)
      else now)"

text \<open>The \<^verbatim>\<open>$match\<close> stage: \<^verbatim>\<open>timestamp: { $gte: startDate }\<close>.\<close>

definition matchStage :: "int \<Rightarrow> MinerHistory list \<Rightarrow> MinerHistory list" where
  "matchStage start hs = filter (\<lambda>h. start \<le> mh_timestamp h) hs"

text \<open>The values of a field that are numbers: an accumulator skips a document without.\<close>

fun somes :: "'a option list \<Rightarrow> 'a list" where
  "somes [] = []"
| "somes (None # xs) = somes xs"
| "somes (Some x # xs) = x # somes xs"

text \<open>
  The accumulators \<^verbatim>\<open>$sum\<close> and \<^verbatim>\<open>$avg\<close> of the database, on the numbers of a
  group, and with them the types \<open>'v\<close> and \<open>'a\<close> of their results, are arguments of the
  model: they are no part of the source. \<^verbatim>\<open>$sort\<close> orders by the linear order of \<open>'v\<close>.
\<close>

record ('v, 'a) accumulators =
  acc_sum :: "rat list \<Rightarrow> 'v"
  acc_avg :: "rat list \<Rightarrow> 'a"

record ('v, 'a) LeaderGroup =
  lg_id :: rat
  lg_totalRewards :: 'v
  lg_avgReward :: 'a
  lg_participationCount :: nat
  lg_successCount :: nat
  lg_avgAccuracy :: 'a

text \<open>The accumulators of one group of the \<^verbatim>\<open>$group\<close> stage, \<^verbatim>\<open>_id: '$minerUid'\<close>.\<close>

definition groupOf ::
  "('v, 'a) accumulators \<Rightarrow> MinerHistory list \<Rightarrow> rat \<Rightarrow> ('v, 'a) LeaderGroup" where
  "groupOf acc hs uid =
     (let g = filter (\<lambda>h. mh_minerUid h = uid) hs in
      \<lparr>lg_id = uid,
       lg_totalRewards = acc_sum acc (somes (map mh_rewardScore g)),
       lg_avgReward = acc_avg acc (somes (map mh_rewardScore g)),
       lg_participationCount = length g,
       lg_successCount = length (filter (\<lambda>h. mh_status h = StatusSuccess) g),
       lg_avgAccuracy = acc_avg acc (somes (map mh_accuracy g))\<rparr>)"

text \<open>
  One group for each miner of the input. MongoDB does not specify the order in which
  \<^verbatim>\<open>$group\<close> emits its groups; the model emits them in the order of \<open>remdups\<close>.
\<close>

definition groupStage ::
  "('v, 'a) accumulators \<Rightarrow> MinerHistory list \<Rightarrow> ('v, 'a) LeaderGroup list" where
  "groupStage acc hs = map (groupOf acc hs) (remdups (map mh_minerUid hs))"

text \<open>
  \<^verbatim>\<open>$sort: { totalRewards: -1 }\<close>: descending. The order among equal totals is not
  specified by MongoDB; the model has that of a sort by insertion, reversed.
\<close>

definition sortStage ::
  "('v :: linorder, 'a) LeaderGroup list \<Rightarrow> ('v, 'a) LeaderGroup list" where
  "sortStage gs = rev (sort_key lg_totalRewards gs)"

text \<open>
  The entries of the reply. The three formatted fields (\<^verbatim>\<open>avgReward\<close>,
  \<^verbatim>\<open>successRate\<close> and \<^verbatim>\<open>avgAccuracy\<close>, built with \<^verbatim>\<open>toFixed\<close>) are left out.
\<close>

record 'v LeaderEntry =
  le_rank :: nat
  le_minerUid :: rat
  le_totalRewards :: 'v
  le_participationCount :: nat

definition toEntry :: "nat \<times> ('v, 'a) LeaderGroup \<Rightarrow> 'v LeaderEntry" where
  "toEntry p =
     \<lparr>le_rank = fst p + 1, le_minerUid = lg_id (snd p),
      le_totalRewards = lg_totalRewards (snd p),
      le_participationCount = lg_participationCount (snd p)\<rparr>"

text \<open>
  \<open>limit\<close> is the value of \<^verbatim>\<open>parseInt(limit)\<close>, \<open>None\<close> for \<^verbatim>\<open>NaN\<close>. The
  \<^verbatim>\<open>$limit\<close> stage takes a positive integer; the pipeline fails on anything else and
  the handler answers 500.
\<close>

definition leaderboard ::
  "('v :: linorder, 'a) accumulators \<Rightarrow> (bool \<Rightarrow> int \<Rightarrow> int) \<Rightarrow> int \<Rightarrow> string \<Rightarrow> int option
     \<Rightarrow> store \<Rightarrow> error + 'v LeaderEntry list" where
  "leaderboard acc tza now timeRange limit st =
     (case limit of
        None \<Rightarrow> Inl StoreError
      | Some n \<Rightarrow>
          if n \<le> 0 then Inl StoreError
          else Inr (map toEntry (enumerate 0
                 (take (nat n)
                    (sortStage (groupStage acc
                       (matchStage (startDate tza now timeRange) (minerHistory st))))))))"

subsection \<open>GET /api/project/:projectId/summary\<close>

record SessionDigest =
  sd_sessionId :: string
  sd_timestamp :: int
  sd_state :: sessionState
  sd_sampledMinerCount :: rat
  sd_avgRewardScore :: "jsnum option"

record ProjectSummary =
  ps_projectId :: string
  totalValidationRuns :: nat
  successfulRuns :: nat
  failedRuns :: nat
  totalMinersQueried :: rat
  avgRewardScore :: jsnum
  lastRun :: "int option"
  ps_sessions :: "SessionDigest list"

text \<open>\<^verbatim>\<open>ValidationSession.find({ projectId }).sort({ timestamp: -1 })\<close>\<close>

definition projectSessions :: "string \<Rightarrow> store \<Rightarrow> ValidationSession list" where
  "projectSessions pid st =
     sort_key (\<lambda>s. - timestamp s) (filter (\<lambda>s. projectId s = Some pid) (sessions st))"

definition projectSummary :: "string \<Rightarrow> store \<Rightarrow> ProjectSummary" where
  "projectSummary pid st =
     (let ss = projectSessions pid st in
      \<lparr>ps_projectId = pid,
       totalValidationRuns = length ss,
       successfulRuns = length (filter (\<lambda>s. state s = Completed) ss),
       failedRuns = length (filter (\<lambda>s. state s = Failed) ss),
       totalMinersQueried = foldl (\<lambda>acc s. acc + sampledMinerCount s) 0 ss,
       avgRewardScore =
         jsdiv (foldl (\<lambda>acc s. jsadd acc (orZero (averageRewardScore (metrics s)))) (Fin 0) ss)
           (Fin (of_nat (length ss))),
       lastRun = (case ss of [] \<Rightarrow> None | s # _ \<Rightarrow> Some (timestamp s)),
       ps_sessions =
         map (\<lambda>s. \<lparr>sd_sessionId = sessionId s, sd_timestamp = timestamp s,
                    sd_state = state s, sd_sampledMinerCount = sampledMinerCount s,
                    sd_avgRewardScore = averageRewardScore (metrics s)\<rparr>) ss\<rparr>)"

subsection \<open>Example runs\<close>

text \<open>The value of the literal \<^verbatim>\<open>1e400\<close>, which is beyond the range of the doubles.\<close>

definition overRange :: rat where
  "overRange = 10 ^ 400"

text \<open>Stores reached by a few requests, used to run the theorems below on concrete input.\<close>

definition demoCreated :: store where
  "demoCreated =
     snd (createSession ''s1'' 7 (JArr [JNum 1, JNum 2, JNum 3]) None None None emptyStore)"

definition demoResponses :: store where
  "demoResponses =
     snd (recordMinerResponse 10 ''s1'' (JNum 1) (Some ''b'') (Some 4) (Some True) None None
       (snd (recordMinerResponse 9 ''s1'' (JNum 1) (Some ''a'') (Some 3) (Some True) None None
         (snd (recordMinerResponse 8 ''s1'' (JNum 2) None (Some 5) (Some False) None None
            demoCreated)))))"

definition demoBatch :: store where
  "demoBatch =
     snd (recordRewardsBatch ''u1'' 9 ''s1'' (JArr [JNum 1, JNum 2]) (JArr [JNum 5, JNum (- 1)])
            demoCreated)"

definition demoPatch :: ValidationMetrics where
  "demoPatch =
     \<lparr>totalQueryTime = Some (Fin 12), averageRewardScore = None, successRate = None,
      failureCount = Some (Fin 0), validFindings = None\<rparr>"

definition demoCompleted :: store where
  "demoCompleted = snd (completeSession ''s1'' (Some demoPatch) demoBatch)"

text \<open>
  A history around the time 3000000000: an entry one millisecond before it and one at it,
  and for each of the three windows an entry at its start (in UTC) and, for another
  miner, one a millisecond earlier.
\<close>

definition demoHistory :: store where
  "demoHistory =
     emptyStore\<lparr>minerHistory :=
       [\<lparr>mh_minerUid = 1, mh_sessionId = ''s1'', mh_rewardScore = Some 2, mh_accuracy = None,
         mh_timestamp = 2999999999, mh_status = StatusSuccess\<rparr>,
        \<lparr>mh_minerUid = 2, mh_sessionId = ''s1'', mh_rewardScore = Some 5, mh_accuracy = None,
         mh_timestamp = 2913600000, mh_status = StatusSuccess\<rparr>,
        \<lparr>mh_minerUid = 3, mh_sessionId = ''s1'', mh_rewardScore = Some 7, mh_accuracy = None,
         mh_timestamp = 2913599999, mh_status = StatusSuccess\<rparr>,
        \<lparr>mh_minerUid = 1, mh_sessionId = ''s2'', mh_rewardScore = Some 1, mh_accuracy = None,
         mh_timestamp = 2395200000, mh_status = StatusSuccess\<rparr>,
        \<lparr>mh_minerUid = 4, mh_sessionId = ''s2'', mh_rewardScore = Some 9, mh_accuracy = None,
         mh_timestamp = 2395199999, mh_status = StatusSuccess\<rparr>,
        \<lparr>mh_minerUid = 5, mh_sessionId = ''s3'', mh_rewardScore = Some 4, mh_accuracy = None,
         mh_timestamp = 408000000, mh_status = StatusSuccess\<rparr>,
        \<lparr>mh_minerUid = 6, mh_sessionId = ''s3'', mh_rewardScore = Some 100, mh_accuracy = None,
         mh_timestamp = 407999999, mh_status = StatusSuccess\<rparr>,
        \<lparr>mh_minerUid = 7, mh_sessionId = ''s4'', mh_rewardScore = Some 1, mh_accuracy = None,
         mh_timestamp = 3000000000, mh_status = StatusSuccess\<rparr>]\<rparr>"

text \<open>
  Accumulators that are exact on rationals, the time zone UTC, and a time zone whose
  offset of an hour began at the time 2950000000, less than 24 hours before.
\<close>

definition demoAcc :: "(rat, rat option) accumulators" where
  "demoAcc =
     \<lparr>acc_sum = sum_list,
      acc_avg = (\<lambda>xs. if xs = [] then None else Some (sum_list xs / of_nat (length xs)))\<rparr>"

definition utcZone :: "bool \<Rightarrow> int \<Rightarrow> int" where
  "utcZone isUTC t = 0"

definition dstZone :: "bool \<Rightarrow> int \<Rightarrow> int" where
  "dstZone isUTC t = (if 2950000000 \<le> t then 3600000 else 0)"

section \<open>Properties\<close>

subsection \<open>The store primitives\<close>

lemma findOneAndUpdate_None: "(findOneAndUpdate P f xs = None) = (\<forall>x\<in>set xs. \<not> P x)"
  by (induction xs) (auto split: option.splits)

lemma findOneAndUpdate_Some:
  "findOneAndUpdate P f xs = Some ys \<Longrightarrow>
     \<exists>i<length xs. P (xs ! i) \<and> (\<forall>j<i. \<not> P (xs ! j)) \<and> ys = xs[i := f (xs ! i)]"
proof (induction xs arbitrary: ys)
  case Nil
  then show ?case by simp
next
  case (Cons x xs)
  show ?case
  proof (cases "P x")
    case True
    with Cons.prems have "ys = (x # xs)[0 := f ((x # xs) ! 0)]" by simp
    with True show ?thesis by (intro exI[of _ 0]) simp
  next
    case False
    with Cons.prems obtain zs where zs: "findOneAndUpdate P f xs = Some zs" and ys: "ys = x # zs"
      by (auto split: option.splits)
    from Cons.IH[OF zs] obtain i where i: "i < length xs" "P (xs ! i)" "\<forall>j<i. \<not> P (xs ! j)"
      "zs = xs[i := f (xs ! i)]" by blast
    have "\<forall>j<Suc i. \<not> P ((x # xs) ! j)"
      using False i(3) by (auto simp: nth_Cons split: nat.splits)
    with i ys show ?thesis by (intro exI[of _ "Suc i"]) simp
  qed
qed

lemma updateFirst_nth:
  "list_ex P xs \<Longrightarrow>
     \<exists>i<length xs. P (xs ! i) \<and> (\<forall>j<i. \<not> P (xs ! j)) \<and> updateFirst P f xs = xs[i := f (xs ! i)]"
proof (induction xs)
  case Nil
  then show ?case by simp
next
  case (Cons x xs)
  show ?case
  proof (cases "P x")
    case True
    then show ?thesis by (intro exI[of _ 0]) simp
  next
    case False
    with Cons.prems have "list_ex P xs" by simp
    from Cons.IH[OF this] obtain i where i: "i < length xs" "P (xs ! i)" "\<forall>j<i. \<not> P (xs ! j)"
      "updateFirst P f xs = xs[i := f (xs ! i)]" by blast
    have "\<forall>j<Suc i. \<not> P ((x # xs) ! j)"
      using False i(3) by (auto simp: nth_Cons split: nat.splits)
    with i False show ?thesis by (intro exI[of _ "Suc i"]) simp
  qed
qed

subsection \<open>Project summary\<close>

text \<open>
  C8. When no session carries the project id, the summary is not an error: the three run
  counts and the number of miners queried are 0, \<open>lastRun\<close> is \<^verbatim>\<open>null\<close>, and
  \<open>avgRewardScore\<close> is the \<open>NaN\<close> of the division of 0 by the zero session count.
\<close>

theorem projectSummary_no_sessions:
  "filter (\<lambda>s. projectId s = Some pid) (sessions st) = [] \<Longrightarrow>
   projectSummary pid st =
     \<lparr>ps_projectId = pid, totalValidationRuns = 0, successfulRuns = 0, failedRuns = 0,
      totalMinersQueried = 0, avgRewardScore = NaN, lastRun = None, ps_sessions = []\<rparr>"
  by (simp add: projectSummary_def projectSessions_def jsdiv_def)

theorem projectSummary_no_sessions_witness:
  "filter (\<lambda>s. projectId s = Some ''p'')
     (sessions (snd (createSession ''s1'' 7 (JArr [JNum 1, JNum 2, JNum 3]) None None None
        emptyStore))) = []
   \<and> avgRewardScore (projectSummary ''p''
        (snd (createSession ''s1'' 7 (JArr [JNum 1, JNum 2, JNum 3]) None None None
           emptyStore))) = NaN"
proof -
  have h: "filter (\<lambda>s. projectId s = Some ''p'')
     (sessions (snd (createSession ''s1'' 7 (JArr [JNum 1, JNum 2, JNum 3]) None None None
        emptyStore))) = []"
    by (simp add: createSession_def emptyStore_def newSession_def)
  show ?thesis using h projectSummary_no_sessions[OF h] by simp
qed

subsection \<open>Rewarding one miner\<close>

text \<open>
  C1. \<open>recordMinerReward\<close> with a number as \<open>minerUid\<close>. When no session with the id has
  a response of that miner, the reply is \<open>NotFoundError\<close> and the store, the miner history
  included, is as before. Otherwise the first response of that miner in the session (no
  earlier index matches) gets the reward score and the reward reason, a value that is
  absent leaving the stored one; nothing else of that response, of the other responses
  or of the other sessions changes, and exactly one history entry is appended, with
  status \<open>success\<close> when the score is above 0 and \<open>failed\<close> otherwise.
\<close>

theorem recordMinerReward_first_match:
  "((\<forall>s\<in>set (sessions st). sessionId s = sid \<longrightarrow>
       (\<forall>r\<in>set (minerResponses s). mr_minerUid r \<noteq> uid)) \<longrightarrow>
      recordMinerReward now sid (JNum uid) score reason st = (Inl NotFoundError, st)) \<and>
   ((\<exists>s\<in>set (sessions st). sessionId s = sid \<and>
       (\<exists>r\<in>set (minerResponses s). mr_minerUid r = uid)) \<longrightarrow>
      (\<exists>k<length (sessions st). \<exists>i<length (minerResponses (sessions st ! k)).
         sessionId (sessions st ! k) = sid \<and>
         mr_minerUid (minerResponses (sessions st ! k) ! i) = uid \<and>
         (\<forall>j<i. mr_minerUid (minerResponses (sessions st ! k) ! j) \<noteq> uid) \<and>
         recordMinerReward now sid (JNum uid) score reason st =
           (Inr (uid, score),
            st\<lparr>sessions := (sessions st)[k := (sessions st ! k)
                   \<lparr>minerResponses := (minerResponses (sessions st ! k))[i :=
                      (minerResponses (sessions st ! k) ! i)
                        \<lparr>mr_rewardScore :=
                           (case score of
                              None \<Rightarrow> mr_rewardScore (minerResponses (sessions st ! k) ! i)
                            | Some v \<Rightarrow> Some v),
                         mr_rewardReason :=
                           (case reason of
                              None \<Rightarrow> mr_rewardReason (minerResponses (sessions st ! k) ! i)
                            | Some t \<Rightarrow> Some t)\<rparr>]\<rparr>],
               minerHistory := minerHistory st @
                 [\<lparr>mh_minerUid = uid, mh_sessionId = sid, mh_rewardScore = score,
                   mh_accuracy = None, mh_timestamp = now,
                   mh_status =
                     (case score of
                        None \<Rightarrow> StatusFailed
                      | Some v \<Rightarrow> if 0 < v then StatusSuccess else StatusFailed)\<rparr>]\<rparr>)))"
  (is "(?A \<longrightarrow> ?F) \<and> (?B \<longrightarrow> ?S)")
proof (intro conjI impI)
  let ?f = "\<lambda>s. s\<lparr>minerResponses := updateFirst (\<lambda>r. mr_minerUid r = uid)
                      (setReward score reason) (minerResponses s)\<rparr>"
  assume ?A
  then have "findOneAndUpdate (hasResponse sid uid) ?f (sessions st) = None"
    by (auto simp: findOneAndUpdate_None hasResponse_def list_ex_iff)
  then show ?F
    by (simp add: recordMinerReward_def)
next
  let ?f = "\<lambda>s. s\<lparr>minerResponses := updateFirst (\<lambda>r. mr_minerUid r = uid)
                      (setReward score reason) (minerResponses s)\<rparr>"
  assume ?B
  then have "findOneAndUpdate (hasResponse sid uid) ?f (sessions st) \<noteq> None"
    by (auto simp: findOneAndUpdate_None hasResponse_def list_ex_iff)
  then obtain ss where ss: "findOneAndUpdate (hasResponse sid uid) ?f (sessions st) = Some ss"
    by blast
  from findOneAndUpdate_Some[OF ss] obtain k where k: "k < length (sessions st)"
    "hasResponse sid uid (sessions st ! k)"
    "ss = (sessions st)[k := ?f (sessions st ! k)]" by blast
  let ?rs = "minerResponses (sessions st ! k)"
  from k(2) have sid: "sessionId (sessions st ! k) = sid"
    and ex: "list_ex (\<lambda>r. mr_minerUid r = uid) ?rs"
    by (simp_all add: hasResponse_def)
  from updateFirst_nth[OF ex, of "setReward score reason"] obtain i where i: "i < length ?rs"
    "mr_minerUid (?rs ! i) = uid" "\<forall>j<i. mr_minerUid (?rs ! j) \<noteq> uid"
    "updateFirst (\<lambda>r. mr_minerUid r = uid) (setReward score reason) ?rs =
       ?rs[i := setReward score reason (?rs ! i)]" by blast
  have st: "rewardStatus score =
     (case score of None \<Rightarrow> StatusFailed
      | Some v \<Rightarrow> if 0 < v then StatusSuccess else StatusFailed)"
    by (cases score) simp_all
  have res: "recordMinerReward now sid (JNum uid) score reason st =
     (Inr (uid, score),
      st\<lparr>sessions := (sessions st)[k := (sessions st ! k)
             \<lparr>minerResponses := ?rs[i := setReward score reason (?rs ! i)]\<rparr>],
         minerHistory := minerHistory st @
           [\<lparr>mh_minerUid = uid, mh_sessionId = sid, mh_rewardScore = score,
             mh_accuracy = None, mh_timestamp = now, mh_status = rewardStatus score\<rparr>]\<rparr>)"
    using ss k(3) i(4) by (simp add: recordMinerReward_def)
  show ?S
    apply (rule exI[of _ k])
    apply (rule conjI[OF k(1)])
    apply (rule exI[of _ i])
    apply (rule conjI[OF i(1)])
    using sid i(2,3) res st
    apply (simp add: setReward_def setPath_def)
    done
qed

theorem recordMinerReward_first_match_witness:
  "(\<exists>s\<in>set (sessions demoResponses). sessionId s = ''s1'' \<and>
       (\<exists>r\<in>set (minerResponses s). mr_minerUid r = 1)) \<and>
   \<not> (\<exists>s\<in>set (sessions demoResponses). sessionId s = ''s1'' \<and>
       (\<exists>r\<in>set (minerResponses s). mr_minerUid r = 9)) \<and>
   recordMinerReward 11 ''s1'' (JNum 9) (Some 5) (Some ''ok'') demoResponses =
     (Inl NotFoundError, demoResponses) \<and>
   map (\<lambda>s. map (\<lambda>r. (mr_minerUid r, mr_githubUrl r, mr_rewardScore r, mr_rewardReason r))
          (minerResponses s))
     (sessions (snd (recordMinerReward 11 ''s1'' (JNum 1) (Some 5) (Some ''ok'') demoResponses))) =
     [[(2, None, None, None), (1, Some ''a'', Some 5, Some ''ok''), (1, Some ''b'', None, None)]] \<and>
   map mh_status
     (minerHistory (snd (recordMinerReward 11 ''s1'' (JNum 1) (Some 5) (Some ''ok'')
        demoResponses))) = [StatusSuccess]"
  using recordMinerReward_first_match[of demoResponses "''s1''" 9 11 "Some 5" "Some ''ok''"]
        recordMinerReward_first_match[of demoResponses "''s1''" 1 11 "Some 5" "Some ''ok''"]
  by (simp add: demoResponses_def demoCreated_def createSession_def emptyStore_def
        newSession_def recordMinerResponse_def recordMinerReward_def hasResponse_def
        setReward_def setPath_def)

subsection \<open>Doubles\<close>

lemma ilog2_small: "n < 2 \<Longrightarrow> ilog2 n = 0"
  by (simp add: ilog2.simps)

lemma ilog2_step: "2 \<le> n \<Longrightarrow> ilog2 n = ilog2 (n div 2) + 1"
  by (subst ilog2.simps) simp

lemma ilog2_shift: "2 ^ k \<le> n \<Longrightarrow> ilog2 n = ilog2 (n div 2 ^ k) + int k"
proof (induction k arbitrary: n)
  case 0
  then show ?case by simp
next
  case (Suc k)
  define x :: int where "x = 2 ^ k"
  have x: "1 \<le> x" by (simp add: x_def)
  from Suc.prems have le: "2 * x \<le> n" by (simp add: x_def)
  from x le have n1: "2 \<le> n" by linarith
  from le have n2: "x \<le> n div 2" by linarith
  have "n div 2 div 2 ^ k = n div 2 ^ Suc k"
    by (simp add: zdiv_zmult2_eq)
  with Suc.IH[of "n div 2"] n2 ilog2_step[OF n1] show ?case by (simp add: x_def)
qed

text \<open>For evaluation: one bit at a time below \<open>2 ^ 64\<close>, 64 bits at a time above.\<close>

lemma ilog2_bit: "2 \<le> n \<Longrightarrow> n < 18446744073709551616 \<Longrightarrow> ilog2 n = ilog2 (n div 2) + 1"
  by (rule ilog2_step)

lemma ilog2_word:
  "18446744073709551616 \<le> n \<Longrightarrow> ilog2 n = ilog2 (n div 18446744073709551616) + 64"
  using ilog2_shift[of 64 n] by simp

lemma floor_rat_numeral_div: "\<lfloor>numeral a / numeral b :: rat\<rfloor> = numeral a div numeral b"
  using floor_divide_of_int_eq[of "numeral a" "numeral b", where ?'a = rat] by simp

lemma floor_rat_one_div: "\<lfloor>1 / numeral b :: rat\<rfloor> = 1 div numeral b"
  using floor_divide_of_int_eq[of 1 "numeral b", where ?'a = rat] by simp

lemmas r64 = round64_def expo_def pow2_def roundEven_def ilog2_small ilog2_bit ilog2_word
  Let_def floor_rat_numeral_div floor_rat_one_div

text \<open>
  Some values of the rounding: small integers and \<open>1/2\<close> are doubles; \<open>1/3\<close>, \<open>1/10\<close>,
  \<open>(1/3) * 100\<close> and \<open>0.1 + 0.2\<close> are rounded; \<open>2 ^ 53 + 1\<close> is a tie and goes to the even
  significand.
\<close>

lemma round64_values:
  "round64 1 = Fin 1"
  "round64 2 = Fin 2"
  "round64 3 = Fin 3"
  "round64 4 = Fin 4"
  "round64 5 = Fin 5"
  "round64 6 = Fin 6"
  "round64 (- 1) = Fin (- 1)"
  "round64 (1 / 2) = Fin (1 / 2)"
  "round64 50 = Fin 50"
  "round64 100 = Fin 100"
  "round64 (1 / 3) = Fin (6004799503160661 / 18014398509481984)"
  "round64 (100 * (6004799503160661 / 18014398509481984)) =
     Fin (2345624805922133 / 70368744177664)"
  "round64 (1 / 10) = Fin (3602879701896397 / 36028797018963968)"
  "round64 (2 / 10) = Fin (3602879701896397 / 18014398509481984)"
  "round64 (3602879701896397 / 36028797018963968 + 3602879701896397 / 18014398509481984) =
     Fin (1351079888211149 / 4503599627370496)"
  "round64 (1351079888211149 / 4503599627370496 / 2) = Fin (1351079888211149 / 9007199254740992)"
  "round64 9007199254740993 = Fin 9007199254740992"
  by (simp_all add: r64)

text \<open>
  A literal beyond the range is an infinity, a sum beyond the range too, and a negative
  number below half the smallest subnormal is \<open>-0\<close>.
\<close>

lemma round64_overRange: "round64 overRange = PosInf" "round64 (- overRange) = NegInf"
  by (simp_all add: overRange_def r64)

lemma jsadd_overflow: "jsadd (Fin (2 ^ 1023)) (Fin (2 ^ 1023)) = PosInf"
  by (simp add: jsadd_def r64)

lemma round64_underflow: "round64 (- 1 / 2 ^ 1075) = NegZero"
  by (simp add: r64)

lemma jsadd_opposite: "jsadd PosInf NegInf = NaN" "jsadd (Fin 0) PosInf = PosInf"
  by (simp_all add: jsadd_def)

lemma round64_not_NaN: "round64 x \<noteq> NaN"
  by (simp add: round64_def Let_def)

lemma jsdiv_nat_NaN: "0 < n \<Longrightarrow> (jsdiv x (Fin (of_nat n)) = NaN) = (x = NaN)"
  by (cases x) (simp_all add: jsdiv_def round64_not_NaN)

lemma jsmul_100_NaN: "(jsmul x (Fin 100) = NaN) = (x = NaN)"
  by (cases x) (simp_all add: jsmul_def round64_not_NaN)

subsection \<open>A batch of rewards\<close>

lemma castNumbers_map_JNum: "castNumbers (map JNum xs) = Some xs"
  by (induction xs) simp_all

lemma castDoubles_map_JNum: "castDoubles (map JNum xs) = Some (map round64 xs)"
  by (induction xs) simp_all

lemma castDoubles_Some: "castDoubles vs = Some ns \<Longrightarrow> \<exists>xs. vs = map JNum xs \<and> ns = map round64 xs"
proof (induction vs arbitrary: ns)
  case Nil
  then show ?case by simp
next
  case (Cons v vs)
  from Cons.prems obtain r ms where v: "v = JNum r" and ms: "castDoubles vs = Some ms"
    and ns: "ns = round64 r # ms"
    by (cases v) (auto split: option.splits)
  from Cons.IH[OF ms] obtain xs where "vs = map JNum xs" "ms = map round64 xs" by blast
  with v ns have "v # vs = map JNum (r # xs) \<and> ns = map round64 (r # xs)" by simp
  then show ?case by (rule exI)
qed

lemma zipRewards_nth:
  "length uids = length rws \<Longrightarrow>
   zipRewards now uids rws =
     map (\<lambda>k. \<lparr>cr_minerUid = uids ! k, cr_score = rws ! k, cr_timestamp = now\<rparr>)
       [0..<length uids]"
  by (rule nth_equalityI) (simp_all add: zipRewards_def)

lemma refused_batchMetrics:
  "0 < n \<Longrightarrow> refused (batchMetrics n rws) = (foldl jsadd (Fin 0) rws = NaN)"
  by (simp add: refused_def batchMetrics_def Let_def jsdiv_nat_NaN jsmul_100_NaN)

lemma batchMetrics_empty:
  "batchMetrics 0 [] =
     \<lparr>totalQueryTime = None, averageRewardScore = Some NaN, successRate = Some NaN,
      failureCount = Some (Fin 0), validFindings = None\<rparr>"
  by (simp add: batchMetrics_def jsdiv_def jsmul_def)

lemma batch_existing:
  assumes ex: "\<exists>s\<in>set (sessions st). sessionId s = sid"
    and len: "length uids = length rws"
    and fresh: "uuid \<notin> set (map ru_updateId (rewardUpdates st))"
  shows "\<exists>i<length (sessions st).
           sessionId (sessions st ! i) = sid \<and>
           (\<forall>j<i. sessionId (sessions st ! j) \<noteq> sid) \<and>
           recordRewardsBatch uuid now sid (JArr (map JNum uids)) (JArr (map JNum rws)) st =
             (if refused (batchMetrics (length uids) (map round64 rws))
              then (Inl StoreError, st\<lparr>rewardUpdates := rewardUpdates st @
                   [\<lparr>ru_updateId = uuid, ru_sessionId = sid, ru_minerUids = map round64 uids,
                     ru_rewards = map round64 rws, ru_timestamp = now, ru_confirmed = False\<rparr>]\<rparr>)
              else
                (Inr (uuid, length uids),
                 st\<lparr>rewardUpdates := rewardUpdates st @
                   [\<lparr>ru_updateId = uuid, ru_sessionId = sid, ru_minerUids = map round64 uids,
                     ru_rewards = map round64 rws, ru_timestamp = now, ru_confirmed = False\<rparr>],
                   sessions := (sessions st)[i := (sessions st ! i)
                      \<lparr>computedRewards := zipRewards now (map round64 uids) (map round64 rws),
                       metrics := batchMetrics (length uids) (map round64 rws)\<rparr>]\<rparr>))"
proof -
  let ?f = "\<lambda>s. s\<lparr>computedRewards := zipRewards now (map round64 uids) (map round64 rws),
                   metrics := batchMetrics (length uids) (map round64 rws)\<rparr>"
  from ex have "findOneAndUpdate (\<lambda>s. sessionId s = sid) ?f (sessions st) \<noteq> None"
    by (simp add: findOneAndUpdate_None)
  then obtain ss where ss: "findOneAndUpdate (\<lambda>s. sessionId s = sid) ?f (sessions st) = Some ss"
    by blast
  from findOneAndUpdate_Some[OF ss] obtain i where i: "i < length (sessions st)"
    "sessionId (sessions st ! i) = sid" "\<forall>j<i. sessionId (sessions st ! j) \<noteq> sid"
    "ss = (sessions st)[i := ?f (sessions st ! i)]" by blast
  have "recordRewardsBatch uuid now sid (JArr (map JNum uids)) (JArr (map JNum rws)) st =
             (if refused (batchMetrics (length uids) (map round64 rws))
              then (Inl StoreError, st\<lparr>rewardUpdates := rewardUpdates st @
                   [\<lparr>ru_updateId = uuid, ru_sessionId = sid, ru_minerUids = map round64 uids,
                     ru_rewards = map round64 rws, ru_timestamp = now, ru_confirmed = False\<rparr>]\<rparr>)
              else
                (Inr (uuid, length uids),
                 st\<lparr>rewardUpdates := rewardUpdates st @
                   [\<lparr>ru_updateId = uuid, ru_sessionId = sid, ru_minerUids = map round64 uids,
                     ru_rewards = map round64 rws, ru_timestamp = now, ru_confirmed = False\<rparr>],
                   sessions := (sessions st)[i := ?f (sessions st ! i)]\<rparr>))"
    using ss i(4) len fresh by (simp add: recordRewardsBatch_def castDoubles_map_JNum)
  with i(1,2,3) show ?thesis by blast
qed

lemma batch_missing:
  assumes ex: "\<forall>s\<in>set (sessions st). sessionId s \<noteq> sid"
    and len: "length uids = length rws"
    and fresh: "uuid \<notin> set (map ru_updateId (rewardUpdates st))"
  shows "recordRewardsBatch uuid now sid (JArr (map JNum uids)) (JArr (map JNum rws)) st =
             (Inr (uuid, length uids), st\<lparr>rewardUpdates := rewardUpdates st @
                   [\<lparr>ru_updateId = uuid, ru_sessionId = sid, ru_minerUids = map round64 uids,
                     ru_rewards = map round64 rws, ru_timestamp = now, ru_confirmed = False\<rparr>]\<rparr>)"
proof -
  let ?f = "\<lambda>s. s\<lparr>computedRewards := zipRewards now (map round64 uids) (map round64 rws),
                   metrics := batchMetrics (length uids) (map round64 rws)\<rparr>"
  from ex have "findOneAndUpdate (\<lambda>s. sessionId s = sid) ?f (sessions st) = None"
    by (simp add: findOneAndUpdate_None)
  then show ?thesis
    using len fresh by (simp add: recordRewardsBatch_def castDoubles_map_JNum)
qed

lemma batch_success:
  assumes "fst (recordRewardsBatch uuid now sid minerUids rewards st) = Inr rep"
  shows "\<exists>uids rws. minerUids = JArr (map JNum uids) \<and> rewards = JArr (map JNum rws) \<and>
           length uids = length rws \<and> uuid \<notin> set (map ru_updateId (rewardUpdates st)) \<and>
           ((\<exists>s\<in>set (sessions st). sessionId s = sid) \<longrightarrow>
              \<not> refused (batchMetrics (length uids) (map round64 rws)))"
proof -
  from assms obtain us rs where a: "minerUids = JArr us" "rewards = JArr rs"
    by (auto simp: recordRewardsBatch_def split: jsval.splits)
  from assms a have len: "length us = length rs"
    by (auto simp: recordRewardsBatch_def split: if_splits)
  from assms a len obtain ds es where c: "castDoubles us = Some ds" "castDoubles rs = Some es"
    by (auto simp: recordRewardsBatch_def split: option.splits)
  from assms a len c have fresh: "uuid \<notin> set (map ru_updateId (rewardUpdates st))"
    by (auto simp: recordRewardsBatch_def split: if_splits)
  from castDoubles_Some[OF c(1)] obtain uids where uids: "us = map JNum uids" by blast
  from castDoubles_Some[OF c(2)] obtain rws where rws: "rs = map JNum rws" by blast
  from len uids rws have len': "length uids = length rws" by simp
  have "\<not> refused (batchMetrics (length uids) (map round64 rws))"
    if ex: "\<exists>s\<in>set (sessions st). sessionId s = sid"
  proof
    assume r: "refused (batchMetrics (length uids) (map round64 rws))"
    from batch_existing[OF ex len' fresh, of now] r
    have "fst (recordRewardsBatch uuid now sid (JArr (map JNum uids)) (JArr (map JNum rws)) st) =
            Inl StoreError"
      by auto
    with assms a uids rws show False by simp
  qed
  with a uids rws len' fresh show ?thesis by blast
qed

lemmas jsops = jsadd_def jsmul_def jsdiv_def

lemma demoCreated_value:
  "demoCreated =
     \<lparr>sessions = [newSession ''s1'' 7 3 [1, 2, 3] None None], minerHistory = [],
      rewardUpdates = []\<rparr>"
  by (simp add: demoCreated_def createSession_def emptyStore_def)

lemma demoBatch_value:
  "demoBatch =
     \<lparr>sessions =
        [(newSession ''s1'' 7 3 [1, 2, 3] None None)
           \<lparr>computedRewards :=
              [\<lparr>cr_minerUid = Fin 1, cr_score = Fin 5, cr_timestamp = 9\<rparr>,
               \<lparr>cr_minerUid = Fin 2, cr_score = Fin (- 1), cr_timestamp = 9\<rparr>],
            metrics :=
              \<lparr>totalQueryTime = None, averageRewardScore = Some (Fin 2),
               successRate = Some (Fin 50), failureCount = Some (Fin 1),
               validFindings = None\<rparr>\<rparr>],
      minerHistory = [],
      rewardUpdates =
        [\<lparr>ru_updateId = ''u1'', ru_sessionId = ''s1'', ru_minerUids = [Fin 1, Fin 2],
          ru_rewards = [Fin 5, Fin (- 1)], ru_timestamp = 9, ru_confirmed = False\<rparr>]\<rparr>"
  by (simp add: demoBatch_def demoCreated_value recordRewardsBatch_def newSession_def
        batchMetrics_def zipRewards_def refused_def jsops r64)

lemma demoCompleted_value:
  "demoCompleted =
     \<lparr>sessions =
        [(newSession ''s1'' 7 3 [1, 2, 3] None None)
           \<lparr>state := Completed,
            computedRewards :=
              [\<lparr>cr_minerUid = Fin 1, cr_score = Fin 5, cr_timestamp = 9\<rparr>,
               \<lparr>cr_minerUid = Fin 2, cr_score = Fin (- 1), cr_timestamp = 9\<rparr>],
            metrics :=
              \<lparr>totalQueryTime = Some (Fin 12), averageRewardScore = Some (Fin 2),
               successRate = Some (Fin 50), failureCount = Some (Fin 0),
               validFindings = None\<rparr>\<rparr>],
      minerHistory = [],
      rewardUpdates =
        [\<lparr>ru_updateId = ''u1'', ru_sessionId = ''s1'', ru_minerUids = [Fin 1, Fin 2],
          ru_rewards = [Fin 5, Fin (- 1)], ru_timestamp = 9, ru_confirmed = False\<rparr>]\<rparr>"
  by (simp add: demoCompleted_def demoBatch_value demoPatch_def completeSession_def
        newSession_def patchMetrics_def setPath_def optField_def)

text \<open>
  C2, as the handler and the schema have it. \<open>recordRewardsBatch\<close> with two arrays of
  numbers of the same length \<open>n \<ge> 1\<close>, an update id that is not in use and a session with
  the id. The numbers are the doubles of the literals and the arithmetic is that of
  doubles. When the sum of the rewards, added from the left, is \<open>NaN\<close>, the save is
  refused: the reply is the failure 500, the log entry is written and no session
  changes. Otherwise the first session with the id gets \<open>computedRewards\<close> replaced by the
  \<open>n\<close> triples \<open>(minerUids[k], rewards[k], now)\<close>, a success rate of
  (number of rewards above 0) / n * 100, an average reward of (sum of the rewards) / n and
  a failure count of n minus the number of rewards above 0. The witness runs
  \<open>[1, 2]\<close> with \<open>[5, -1]\<close> (50, 2, 1 and two entries), \<open>[1, -1, 0]\<close> (a success rate of
  33.33333333333333, not 100/3) and \<open>[0.1, 0.2]\<close> (an average of 0.15000000000000002).
\<close>

theorem recordRewardsBatch_metrics:
  assumes "\<exists>s\<in>set (sessions st). sessionId s = sid"
    and "length uids = length rws"
    and "0 < length uids"
    and "uuid \<notin> set (map ru_updateId (rewardUpdates st))"
  shows "\<exists>i<length (sessions st).
           sessionId (sessions st ! i) = sid \<and>
           (\<forall>j<i. sessionId (sessions st ! j) \<noteq> sid) \<and>
           (foldl jsadd (Fin 0) (map round64 rws) = NaN \<longrightarrow>
              recordRewardsBatch uuid now sid (JArr (map JNum uids)) (JArr (map JNum rws)) st =
                (Inl StoreError, st\<lparr>rewardUpdates := rewardUpdates st @
                   [\<lparr>ru_updateId = uuid, ru_sessionId = sid, ru_minerUids = map round64 uids,
                     ru_rewards = map round64 rws, ru_timestamp = now, ru_confirmed = False\<rparr>]\<rparr>)) \<and>
           (foldl jsadd (Fin 0) (map round64 rws) \<noteq> NaN \<longrightarrow>
              (\<exists>s'. recordRewardsBatch uuid now sid (JArr (map JNum uids)) (JArr (map JNum rws)) st =
                     (Inr (uuid, length uids),
                      st\<lparr>rewardUpdates := rewardUpdates st @
                   [\<lparr>ru_updateId = uuid, ru_sessionId = sid, ru_minerUids = map round64 uids,
                     ru_rewards = map round64 rws, ru_timestamp = now, ru_confirmed = False\<rparr>],
                        sessions := (sessions st)[i := s']\<rparr>) \<and>
                   s' = (sessions st ! i)
                          \<lparr>computedRewards := computedRewards s', metrics := metrics s'\<rparr> \<and>
                   computedRewards s' =
                     map (\<lambda>k. \<lparr>cr_minerUid = round64 (uids ! k), cr_score = round64 (rws ! k),
                                cr_timestamp = now\<rparr>)
                       [0..<length uids] \<and>
                   successRate (metrics s') =
                     Some (jsmul
                       (jsdiv (Fin (of_nat (length (filter greaterZero (map round64 rws)))))
                          (Fin (of_nat (length uids))))
                       (Fin 100)) \<and>
                   averageRewardScore (metrics s') =
                     Some (jsdiv (foldl jsadd (Fin 0) (map round64 rws))
                       (Fin (of_nat (length uids)))) \<and>
                   failureCount (metrics s') =
                     Some (Fin (of_nat
                       (length uids - length (filter greaterZero (map round64 rws)))))))"
proof -
  from batch_existing[OF assms(1,2,4), of now] obtain i where i: "i < length (sessions st)"
    "sessionId (sessions st ! i) = sid" "\<forall>j<i. sessionId (sessions st ! j) \<noteq> sid"
    "recordRewardsBatch uuid now sid (JArr (map JNum uids)) (JArr (map JNum rws)) st =
             (if refused (batchMetrics (length uids) (map round64 rws))
              then (Inl StoreError, st\<lparr>rewardUpdates := rewardUpdates st @
                   [\<lparr>ru_updateId = uuid, ru_sessionId = sid, ru_minerUids = map round64 uids,
                     ru_rewards = map round64 rws, ru_timestamp = now, ru_confirmed = False\<rparr>]\<rparr>)
              else
                (Inr (uuid, length uids),
                 st\<lparr>rewardUpdates := rewardUpdates st @
                   [\<lparr>ru_updateId = uuid, ru_sessionId = sid, ru_minerUids = map round64 uids,
                     ru_rewards = map round64 rws, ru_timestamp = now, ru_confirmed = False\<rparr>],
                   sessions := (sessions st)[i := (sessions st ! i)
                      \<lparr>computedRewards := zipRewards now (map round64 uids) (map round64 rws),
                       metrics := batchMetrics (length uids) (map round64 rws)\<rparr>]\<rparr>))" by blast
  have r: "refused (batchMetrics (length uids) (map round64 rws)) =
           (foldl jsadd (Fin 0) (map round64 rws) = NaN)"
    using assms(3) by (rule refused_batchMetrics)
  have le: "length (filter greaterZero (map round64 rws)) \<le> length uids"
    using assms(2) length_filter_le[of greaterZero "map round64 rws"] by simp
  have z: "zipRewards now (map round64 uids) (map round64 rws) =
           map (\<lambda>k. \<lparr>cr_minerUid = round64 (uids ! k), cr_score = round64 (rws ! k),
                      cr_timestamp = now\<rparr>) [0..<length uids]"
    using assms(2) by (simp add: zipRewards_nth)
  let ?s = "(sessions st ! i)
             \<lparr>computedRewards := zipRewards now (map round64 uids) (map round64 rws),
              metrics := batchMetrics (length uids) (map round64 rws)\<rparr>"
  have bad: "foldl jsadd (Fin 0) (map round64 rws) = NaN \<longrightarrow>
      recordRewardsBatch uuid now sid (JArr (map JNum uids)) (JArr (map JNum rws)) st =
        (Inl StoreError, st\<lparr>rewardUpdates := rewardUpdates st @
                   [\<lparr>ru_updateId = uuid, ru_sessionId = sid, ru_minerUids = map round64 uids,
                     ru_rewards = map round64 rws, ru_timestamp = now, ru_confirmed = False\<rparr>]\<rparr>)"
    using i(4) r by simp
  have good: "foldl jsadd (Fin 0) (map round64 rws) \<noteq> NaN \<longrightarrow>
      recordRewardsBatch uuid now sid (JArr (map JNum uids)) (JArr (map JNum rws)) st =
        (Inr (uuid, length uids),
         st\<lparr>rewardUpdates := rewardUpdates st @
                   [\<lparr>ru_updateId = uuid, ru_sessionId = sid, ru_minerUids = map round64 uids,
                     ru_rewards = map round64 rws, ru_timestamp = now, ru_confirmed = False\<rparr>],
            sessions := (sessions st)[i := ?s]\<rparr>)"
    using i(4) r by simp
  have fields: "?s = (sessions st ! i)\<lparr>computedRewards := computedRewards ?s, metrics := metrics ?s\<rparr>"
    "computedRewards ?s =
       map (\<lambda>k. \<lparr>cr_minerUid = round64 (uids ! k), cr_score = round64 (rws ! k),
                  cr_timestamp = now\<rparr>) [0..<length uids]"
    "successRate (metrics ?s) =
       Some (jsmul
         (jsdiv (Fin (of_nat (length (filter greaterZero (map round64 rws)))))
            (Fin (of_nat (length uids))))
         (Fin 100))"
    "averageRewardScore (metrics ?s) =
       Some (jsdiv (foldl jsadd (Fin 0) (map round64 rws)) (Fin (of_nat (length uids))))"
    "failureCount (metrics ?s) =
       Some (Fin (of_nat (length uids - length (filter greaterZero (map round64 rws)))))"
    using le by (simp_all add: z batchMetrics_def Let_def)
  from i(1,2,3) bad good fields show ?thesis by blast
qed

theorem recordRewardsBatch_metrics_witness:
  "(\<exists>s\<in>set (sessions demoCreated). sessionId s = ''s1'') \<and>
   length [1, 2 :: rat] = length [5, - 1 :: rat] \<and> 0 < length [1, 2 :: rat] \<and>
   ''u1'' \<notin> set (map ru_updateId (rewardUpdates demoCreated)) \<and>
   foldl jsadd (Fin 0) (map round64 [5, - 1]) = Fin 4 \<and>
   fst (recordRewardsBatch ''u1'' 9 ''s1'' (JArr (map JNum [1, 2])) (JArr (map JNum [5, - 1]))
          demoCreated) = Inr (''u1'', 2) \<and>
   map (\<lambda>s. (successRate (metrics s), averageRewardScore (metrics s), failureCount (metrics s),
              map (\<lambda>c. (cr_minerUid c, cr_score c, cr_timestamp c)) (computedRewards s)))
     (sessions (snd (recordRewardsBatch ''u1'' 9 ''s1'' (JArr (map JNum [1, 2]))
        (JArr (map JNum [5, - 1])) demoCreated))) =
     [(Some (Fin 50), Some (Fin 2), Some (Fin 1), [(Fin 1, Fin 5, 9), (Fin 2, Fin (- 1), 9)])] \<and>
   map (\<lambda>s. (successRate (metrics s), averageRewardScore (metrics s), failureCount (metrics s)))
     (sessions (snd (recordRewardsBatch ''u1'' 9 ''s1'' (JArr (map JNum [1, 2, 3]))
        (JArr (map JNum [1, - 1, 0])) demoCreated))) =
     [(Some (Fin (2345624805922133 / 70368744177664)), Some (Fin 0), Some (Fin 2))] \<and>
   map (\<lambda>s. (successRate (metrics s), averageRewardScore (metrics s), failureCount (metrics s)))
     (sessions (snd (recordRewardsBatch ''u1'' 9 ''s1'' (JArr (map JNum [1, 2]))
        (JArr (map JNum [1 / 10, 2 / 10])) demoCreated))) =
     [(Some (Fin 100), Some (Fin (1351079888211149 / 9007199254740992)), Some (Fin 0))]"
proof -
  have h: "\<exists>s\<in>set (sessions demoCreated). sessionId s = ''s1''"
    "length [1, 2 :: rat] = length [5, - 1 :: rat]" "0 < length [1, 2 :: rat]"
    "''u1'' \<notin> set (map ru_updateId (rewardUpdates demoCreated))"
    by (simp_all add: demoCreated_value newSession_def)
  have a: "foldl jsadd (Fin 0) (map round64 [5, - 1]) = Fin 4"
    by (simp add: jsops r64)
  have b: "map (\<lambda>s. (successRate (metrics s), averageRewardScore (metrics s),
                      failureCount (metrics s)))
     (sessions (snd (recordRewardsBatch ''u1'' 9 ''s1'' (JArr (map JNum [1, 2, 3]))
        (JArr (map JNum [1, - 1, 0])) demoCreated))) =
     [(Some (Fin (2345624805922133 / 70368744177664)), Some (Fin 0), Some (Fin 2))]"
    by (simp add: demoCreated_value recordRewardsBatch_def newSession_def batchMetrics_def
        zipRewards_def refused_def jsops r64)
  have c: "map (\<lambda>s. (successRate (metrics s), averageRewardScore (metrics s),
                      failureCount (metrics s)))
     (sessions (snd (recordRewardsBatch ''u1'' 9 ''s1'' (JArr (map JNum [1, 2]))
        (JArr (map JNum [1 / 10, 2 / 10])) demoCreated))) =
     [(Some (Fin 100), Some (Fin (1351079888211149 / 9007199254740992)), Some (Fin 0))]"
    by (simp add: demoCreated_value recordRewardsBatch_def newSession_def batchMetrics_def
        zipRewards_def refused_def jsops r64)
  have d: "recordRewardsBatch ''u1'' 9 ''s1'' (JArr (map JNum [1, 2])) (JArr (map JNum [5, - 1]))
            demoCreated = (Inr (''u1'', 2), demoBatch)"
    unfolding demoBatch_value
    by (simp add: demoCreated_value recordRewardsBatch_def newSession_def batchMetrics_def
        zipRewards_def refused_def jsops r64)
  from recordRewardsBatch_metrics[OF h, of 9] h a b c d show ?thesis
    by (simp add: demoBatch_value newSession_def)
qed

text \<open>
  With the rewards \<^verbatim>\<open>[1e400, -1e400]\<close> the sum is \<open>\<infinity> - \<infinity>\<close>: the call fails and the
  session keeps its empty \<open>computedRewards\<close> and its metrics.
\<close>

theorem recordRewardsBatch_nan_counterexample:
  "fst (recordRewardsBatch ''u1'' 9 ''s1'' (JArr [JNum 1, JNum 2])
          (JArr [JNum overRange, JNum (- overRange)]) demoCreated) = Inl StoreError \<and>
   sessions (snd (recordRewardsBatch ''u1'' 9 ''s1'' (JArr [JNum 1, JNum 2])
          (JArr [JNum overRange, JNum (- overRange)]) demoCreated)) =
     [newSession ''s1'' 7 3 [1, 2, 3] None None]"
  by (simp add: demoCreated_value recordRewardsBatch_def newSession_def batchMetrics_def
        refused_def jsops round64_values round64_overRange)

text \<open>
  C9. A batch that is answered with success, on a store that has a session with the id,
  replaces the metrics of the first such session as a whole: the success rate, the
  average reward and the failure count are present, the total query time and the valid
  findings are absent, whatever was stored before.
\<close>

theorem recordRewardsBatch_replaces_metrics:
  assumes "fst (recordRewardsBatch uuid now sid minerUids rewards st) = Inr rep"
    and "\<exists>s\<in>set (sessions st). sessionId s = sid"
  shows "\<exists>i<length (sessions st). \<exists>s'.
           sessionId (sessions st ! i) = sid \<and>
           (\<forall>j<i. sessionId (sessions st ! j) \<noteq> sid) \<and>
           sessions (snd (recordRewardsBatch uuid now sid minerUids rewards st)) =
             (sessions st)[i := s'] \<and>
           totalQueryTime (metrics s') = None \<and>
           validFindings (metrics s') = None \<and>
           successRate (metrics s') \<noteq> None \<and>
           averageRewardScore (metrics s') \<noteq> None \<and>
           failureCount (metrics s') \<noteq> None"
proof -
  from batch_success[OF assms(1)] assms(2) obtain uids rws where a:
    "minerUids = JArr (map JNum uids)" "rewards = JArr (map JNum rws)"
    "length uids = length rws" "uuid \<notin> set (map ru_updateId (rewardUpdates st))"
    "\<not> refused (batchMetrics (length uids) (map round64 rws))" by blast
  from batch_existing[OF assms(2) a(3,4), of now] obtain i where i: "i < length (sessions st)"
    "sessionId (sessions st ! i) = sid" "\<forall>j<i. sessionId (sessions st ! j) \<noteq> sid"
    "recordRewardsBatch uuid now sid (JArr (map JNum uids)) (JArr (map JNum rws)) st =
             (if refused (batchMetrics (length uids) (map round64 rws))
              then (Inl StoreError, st\<lparr>rewardUpdates := rewardUpdates st @
                   [\<lparr>ru_updateId = uuid, ru_sessionId = sid, ru_minerUids = map round64 uids,
                     ru_rewards = map round64 rws, ru_timestamp = now, ru_confirmed = False\<rparr>]\<rparr>)
              else
                (Inr (uuid, length uids),
                 st\<lparr>rewardUpdates := rewardUpdates st @
                   [\<lparr>ru_updateId = uuid, ru_sessionId = sid, ru_minerUids = map round64 uids,
                     ru_rewards = map round64 rws, ru_timestamp = now, ru_confirmed = False\<rparr>],
                   sessions := (sessions st)[i := (sessions st ! i)
                      \<lparr>computedRewards := zipRewards now (map round64 uids) (map round64 rws),
                       metrics := batchMetrics (length uids) (map round64 rws)\<rparr>]\<rparr>))" by blast
  let ?s = "(sessions st ! i)
             \<lparr>computedRewards := zipRewards now (map round64 uids) (map round64 rws),
              metrics := batchMetrics (length uids) (map round64 rws)\<rparr>"
  have res: "sessions (snd (recordRewardsBatch uuid now sid minerUids rewards st)) =
               (sessions st)[i := ?s]"
    using i(4) a(1,2,5) by simp
  have fields: "totalQueryTime (metrics ?s) = None \<and> validFindings (metrics ?s) = None \<and>
           successRate (metrics ?s) \<noteq> None \<and> averageRewardScore (metrics ?s) \<noteq> None \<and>
           failureCount (metrics ?s) \<noteq> None"
    by (simp add: batchMetrics_def Let_def)
  from i(1,2,3) res fields show ?thesis by blast
qed

theorem recordRewardsBatch_replaces_metrics_witness:
  "fst (recordRewardsBatch ''u2'' 20 ''s1'' (JArr [JNum 3]) (JArr [JNum 4]) demoCompleted) =
     Inr (''u2'', 1) \<and>
   (\<exists>s\<in>set (sessions demoCompleted). sessionId s = ''s1'') \<and>
   map (\<lambda>s. totalQueryTime (metrics s)) (sessions demoCompleted) = [Some (Fin 12)] \<and>
   map metrics
     (sessions (snd (recordRewardsBatch ''u2'' 20 ''s1'' (JArr [JNum 3]) (JArr [JNum 4])
        demoCompleted))) =
     [\<lparr>totalQueryTime = None, averageRewardScore = Some (Fin 4), successRate = Some (Fin 100),
       failureCount = Some (Fin 0), validFindings = None\<rparr>]"
  using recordRewardsBatch_replaces_metrics[of "''u2''" 20 "''s1''" "JArr [JNum 3]"
          "JArr [JNum 4]" demoCompleted "(''u2'', 1)"]
  by (simp add: demoCompleted_value recordRewardsBatch_def newSession_def batchMetrics_def
        zipRewards_def refused_def jsops r64)

text \<open>
  C10, as the handler and the schema have it. Two empty arrays pass the checks of the
  handler and, with an update id that is not in use, the log entry is written. The metrics
  the handler computes are a failure count of 0 and \<open>NaN\<close>, the result of \<open>0 / 0\<close>, as
  success rate and as average reward. When a session has the id, the save of these
  metrics is refused: the reply is the failure 500 and no session changes. When no
  session has the id, the reply is success with a miner count of 0.
\<close>

theorem recordRewardsBatch_empty:
  assumes "uuid \<notin> set (map ru_updateId (rewardUpdates st))"
  shows "batchMetrics 0 [] =
           \<lparr>totalQueryTime = None, averageRewardScore = Some NaN, successRate = Some NaN,
            failureCount = Some (Fin 0), validFindings = None\<rparr> \<and>
         ((\<exists>s\<in>set (sessions st). sessionId s = sid) \<longrightarrow>
            recordRewardsBatch uuid now sid (JArr []) (JArr []) st = (Inl StoreError, st\<lparr>rewardUpdates := rewardUpdates st @
          [\<lparr>ru_updateId = uuid, ru_sessionId = sid, ru_minerUids = [], ru_rewards = [],
            ru_timestamp = now, ru_confirmed = False\<rparr>]\<rparr>)) \<and>
         (\<not> (\<exists>s\<in>set (sessions st). sessionId s = sid) \<longrightarrow>
            recordRewardsBatch uuid now sid (JArr []) (JArr []) st = (Inr (uuid, 0), st\<lparr>rewardUpdates := rewardUpdates st @
          [\<lparr>ru_updateId = uuid, ru_sessionId = sid, ru_minerUids = [], ru_rewards = [],
            ru_timestamp = now, ru_confirmed = False\<rparr>]\<rparr>))"
proof (intro conjI impI)
  show "batchMetrics 0 [] =
           \<lparr>totalQueryTime = None, averageRewardScore = Some NaN, successRate = Some NaN,
            failureCount = Some (Fin 0), validFindings = None\<rparr>"
    by (rule batchMetrics_empty)
next
  assume ex: "\<exists>s\<in>set (sessions st). sessionId s = sid"
  have r: "refused (batchMetrics 0 [])"
    by (simp add: batchMetrics_empty refused_def)
  from batch_existing[OF ex _ assms, of "[]" "[]" now] r
  show "recordRewardsBatch uuid now sid (JArr []) (JArr []) st = (Inl StoreError, st\<lparr>rewardUpdates := rewardUpdates st @
          [\<lparr>ru_updateId = uuid, ru_sessionId = sid, ru_minerUids = [], ru_rewards = [],
            ru_timestamp = now, ru_confirmed = False\<rparr>]\<rparr>)"
    by auto
next
  assume "\<not> (\<exists>s\<in>set (sessions st). sessionId s = sid)"
  then have no: "\<forall>s\<in>set (sessions st). sessionId s \<noteq> sid" by simp
  from batch_missing[OF no _ assms, of "[]" "[]" now]
  show "recordRewardsBatch uuid now sid (JArr []) (JArr []) st = (Inr (uuid, 0), st\<lparr>rewardUpdates := rewardUpdates st @
          [\<lparr>ru_updateId = uuid, ru_sessionId = sid, ru_minerUids = [], ru_rewards = [],
            ru_timestamp = now, ru_confirmed = False\<rparr>]\<rparr>)"
    by simp
qed

theorem recordRewardsBatch_empty_witness:
  "''u9'' \<notin> set (map ru_updateId (rewardUpdates demoBatch)) \<and>
   (\<exists>s\<in>set (sessions demoBatch). sessionId s = ''s1'') \<and>
   \<not> (\<exists>s\<in>set (sessions demoBatch). sessionId s = ''zz'') \<and>
   fst (recordRewardsBatch ''u9'' 30 ''s1'' (JArr []) (JArr []) demoBatch) = Inl StoreError \<and>
   fst (recordRewardsBatch ''u9'' 30 ''zz'' (JArr []) (JArr []) demoBatch) = Inr (''u9'', 0) \<and>
   map ru_updateId
     (rewardUpdates (snd (recordRewardsBatch ''u9'' 30 ''s1'' (JArr []) (JArr []) demoBatch))) =
     [''u1'', ''u9''] \<and>
   sessions (snd (recordRewardsBatch ''u9'' 30 ''s1'' (JArr []) (JArr []) demoBatch)) =
     sessions demoBatch \<and>
   sessions (snd (recordRewardsBatch ''u9'' 30 ''zz'' (JArr []) (JArr []) demoBatch)) =
     sessions demoBatch"
proof -
  have h: "''u9'' \<notin> set (map ru_updateId (rewardUpdates demoBatch))"
    by (simp add: demoBatch_value)
  have e: "\<exists>s\<in>set (sessions demoBatch). sessionId s = ''s1''"
    "\<not> (\<exists>s\<in>set (sessions demoBatch). sessionId s = ''zz'')"
    by (simp_all add: demoBatch_value newSession_def)
  have u: "map ru_updateId (rewardUpdates demoBatch) = [''u1'']"
    by (simp add: demoBatch_value)
  from recordRewardsBatch_empty[OF h, of "''s1''" 30] recordRewardsBatch_empty[OF h, of "''zz''" 30]
    h e u
  show ?thesis by simp
qed

text \<open>
  On a store whose session \<open>s1\<close> holds two computed rewards and the metrics 50, 2 and 1,
  the empty batch is answered with the failure and the session keeps them.
\<close>

theorem recordRewardsBatch_empty_counterexample:
  "fst (recordRewardsBatch ''u9'' 30 ''s1'' (JArr []) (JArr []) demoBatch) = Inl StoreError \<and>
   map (\<lambda>s. (map cr_score (computedRewards s), successRate (metrics s),
              averageRewardScore (metrics s), failureCount (metrics s)))
     (sessions (snd (recordRewardsBatch ''u9'' 30 ''s1'' (JArr []) (JArr []) demoBatch))) =
     [([Fin 5, Fin (- 1)], Some (Fin 50), Some (Fin 2), Some (Fin 1))]"
  by (simp add: demoBatch_value recordRewardsBatch_def newSession_def batchMetrics_empty
        refused_def)

subsection \<open>Requests for a session that does not exist\<close>

text \<open>
  C4. When no session has the id, the three handlers that do not look at the result of
  the lookup answer with success and change no session: a batch of two number arrays of
  the same length (with an update id that is not in use) still appends its log entry,
  which holds the doubles of the numbers; a snapshot with numbers as \<open>netuid\<close> and
  \<open>block\<close> and an error with a stage and a message that are not empty leave the store as
  it is.
\<close>

theorem missing_session_silent:
  assumes "\<forall>s\<in>set (sessions st). sessionId s \<noteq> sid"
  shows "(length uids = length rws \<and> uuid \<notin> set (map ru_updateId (rewardUpdates st)) \<longrightarrow>
           recordRewardsBatch uuid now sid (JArr (map JNum uids)) (JArr (map JNum rws)) st =
             (Inr (uuid, length uids),
              st\<lparr>rewardUpdates := rewardUpdates st @
                   [\<lparr>ru_updateId = uuid, ru_sessionId = sid, ru_minerUids = map round64 uids,
                     ru_rewards = map round64 rws, ru_timestamp = now, ru_confirmed = False\<rparr>]\<rparr>)) \<and>
         recordSubnetSnapshot now sid (JNum netuid) (JNum block) av am ts em st = (Inr (), st) \<and>
         (stage \<noteq> [] \<and> message \<noteq> [] \<longrightarrow>
           logError now sid (Some stage) (Some message) trace st = (Inr (), st))"
proof (intro conjI impI)
  assume "length uids = length rws \<and> uuid \<notin> set (map ru_updateId (rewardUpdates st))"
  then show "recordRewardsBatch uuid now sid (JArr (map JNum uids)) (JArr (map JNum rws)) st =
             (Inr (uuid, length uids),
              st\<lparr>rewardUpdates := rewardUpdates st @
                   [\<lparr>ru_updateId = uuid, ru_sessionId = sid, ru_minerUids = map round64 uids,
                     ru_rewards = map round64 rws, ru_timestamp = now, ru_confirmed = False\<rparr>]\<rparr>)"
    using batch_missing[OF assms, of uids rws uuid now] by simp
next
  have "\<And>f. findOneAndUpdate (\<lambda>s. sessionId s = sid) f (sessions st) = None"
    using assms by (simp add: findOneAndUpdate_None)
  then show "recordSubnetSnapshot now sid (JNum netuid) (JNum block) av am ts em st = (Inr (), st)"
    by (simp add: recordSubnetSnapshot_def)
next
  assume "stage \<noteq> [] \<and> message \<noteq> []"
  moreover have "\<And>f. findOneAndUpdate (\<lambda>s. sessionId s = sid) f (sessions st) = None"
    using assms by (simp add: findOneAndUpdate_None)
  ultimately show "logError now sid (Some stage) (Some message) trace st = (Inr (), st)"
    by (simp add: logError_def)
qed

theorem missing_session_silent_witness:
  "\<not> (\<exists>s\<in>set (sessions demoBatch). sessionId s = ''zz'') \<and>
   fst (recordRewardsBatch ''u9'' 30 ''zz'' (JArr (map JNum [1, 2])) (JArr (map JNum [5, 6]))
          demoBatch) = Inr (''u9'', 2) \<and>
   sessions (snd (recordRewardsBatch ''u9'' 30 ''zz'' (JArr (map JNum [1, 2]))
      (JArr (map JNum [5, 6])) demoBatch)) = sessions demoBatch \<and>
   map ru_updateId (rewardUpdates (snd (recordRewardsBatch ''u9'' 30 ''zz''
      (JArr (map JNum [1, 2])) (JArr (map JNum [5, 6])) demoBatch))) = [''u1'', ''u9''] \<and>
   recordSubnetSnapshot 30 ''zz'' (JNum 1) (JNum 2) None None None None demoBatch =
     (Inr (), demoBatch) \<and>
   logError 30 ''zz'' (Some ''fetch'') (Some ''boom'') None demoBatch = (Inr (), demoBatch)"
proof -
  have h: "\<forall>s\<in>set (sessions demoBatch). sessionId s \<noteq> ''zz''"
    by (simp add: demoBatch_value newSession_def)
  have u: "length [1, 2 :: rat] = length [5, 6 :: rat] \<and>
           ''u9'' \<notin> set (map ru_updateId (rewardUpdates demoBatch))"
    by (simp add: demoBatch_value)
  have w: "''fetch'' \<noteq> [] \<and> ''boom'' \<noteq> []" by simp
  have r: "map ru_updateId (rewardUpdates demoBatch) = [''u1'']"
    by (simp add: demoBatch_value)
  from missing_session_silent[OF h, of "[1, 2]" "[5, 6]" "''u9''" 30 1 2 None None None None
          "''fetch''" "''boom''" None] u w h r
  show ?thesis by simp
qed

subsection \<open>Completing a session\<close>

text \<open>
  C6. \<open>completeSession\<close> answers \<open>NotFoundError\<close> and leaves the store as it is when no
  session has the id. Otherwise the first session with the id gets the state
  \<open>completed\<close>, and each of the five metrics is the value of the request when the
  request has one and the stored value when it has none; no other field and no other
  session changes.
\<close>

theorem completeSession_patch:
  "((\<forall>s\<in>set (sessions st). sessionId s \<noteq> sid) \<longrightarrow>
      completeSession sid m st = (Inl NotFoundError, st)) \<and>
   ((\<exists>s\<in>set (sessions st). sessionId s = sid) \<longrightarrow>
      (\<exists>i<length (sessions st). \<exists>s'.
         sessionId (sessions st ! i) = sid \<and>
         (\<forall>j<i. sessionId (sessions st ! j) \<noteq> sid) \<and>
         completeSession sid m st = (Inr sid, st\<lparr>sessions := (sessions st)[i := s']\<rparr>) \<and>
         s' = (sessions st ! i)\<lparr>state := Completed, metrics := metrics s'\<rparr> \<and>
         totalQueryTime (metrics s') =
           (case m of None \<Rightarrow> totalQueryTime (metrics (sessions st ! i))
            | Some r \<Rightarrow> (case totalQueryTime r of
                 None \<Rightarrow> totalQueryTime (metrics (sessions st ! i)) | Some v \<Rightarrow> Some v)) \<and>
         averageRewardScore (metrics s') =
           (case m of None \<Rightarrow> averageRewardScore (metrics (sessions st ! i))
            | Some r \<Rightarrow> (case averageRewardScore r of
                 None \<Rightarrow> averageRewardScore (metrics (sessions st ! i)) | Some v \<Rightarrow> Some v)) \<and>
         successRate (metrics s') =
           (case m of None \<Rightarrow> successRate (metrics (sessions st ! i))
            | Some r \<Rightarrow> (case successRate r of
                 None \<Rightarrow> successRate (metrics (sessions st ! i)) | Some v \<Rightarrow> Some v)) \<and>
         failureCount (metrics s') =
           (case m of None \<Rightarrow> failureCount (metrics (sessions st ! i))
            | Some r \<Rightarrow> (case failureCount r of
                 None \<Rightarrow> failureCount (metrics (sessions st ! i)) | Some v \<Rightarrow> Some v)) \<and>
         validFindings (metrics s') =
           (case m of None \<Rightarrow> validFindings (metrics (sessions st ! i))
            | Some r \<Rightarrow> (case validFindings r of
                 None \<Rightarrow> validFindings (metrics (sessions st ! i)) | Some v \<Rightarrow> Some v))))"
proof (intro conjI impI)
  assume "\<forall>s\<in>set (sessions st). sessionId s \<noteq> sid"
  then have "findOneAndUpdate (\<lambda>s. sessionId s = sid)
       (\<lambda>s. s\<lparr>state := Completed, metrics := patchMetrics m (metrics s)\<rparr>) (sessions st) = None"
    by (simp add: findOneAndUpdate_None)
  then show "completeSession sid m st = (Inl NotFoundError, st)"
    by (simp add: completeSession_def)
next
  let ?f = "\<lambda>s. s\<lparr>state := Completed, metrics := patchMetrics m (metrics s)\<rparr>"
  assume "\<exists>s\<in>set (sessions st). sessionId s = sid"
  then have "findOneAndUpdate (\<lambda>s. sessionId s = sid) ?f (sessions st) \<noteq> None"
    by (simp add: findOneAndUpdate_None)
  then obtain ss where ss: "findOneAndUpdate (\<lambda>s. sessionId s = sid) ?f (sessions st) = Some ss"
    by blast
  from findOneAndUpdate_Some[OF ss] obtain i where i: "i < length (sessions st)"
    "sessionId (sessions st ! i) = sid" "\<forall>j<i. sessionId (sessions st ! j) \<noteq> sid"
    "ss = (sessions st)[i := ?f (sessions st ! i)]" by blast
  have res: "completeSession sid m st = (Inr sid, st\<lparr>sessions := (sessions st)[i := ?f (sessions st ! i)]\<rparr>)"
    using ss i(4) by (simp add: completeSession_def)
  show "\<exists>i<length (sessions st). \<exists>s'.
         sessionId (sessions st ! i) = sid \<and>
         (\<forall>j<i. sessionId (sessions st ! j) \<noteq> sid) \<and>
         completeSession sid m st = (Inr sid, st\<lparr>sessions := (sessions st)[i := s']\<rparr>) \<and>
         s' = (sessions st ! i)\<lparr>state := Completed, metrics := metrics s'\<rparr> \<and>
         totalQueryTime (metrics s') =
           (case m of None \<Rightarrow> totalQueryTime (metrics (sessions st ! i))
            | Some r \<Rightarrow> (case totalQueryTime r of
                 None \<Rightarrow> totalQueryTime (metrics (sessions st ! i)) | Some v \<Rightarrow> Some v)) \<and>
         averageRewardScore (metrics s') =
           (case m of None \<Rightarrow> averageRewardScore (metrics (sessions st ! i))
            | Some r \<Rightarrow> (case averageRewardScore r of
                 None \<Rightarrow> averageRewardScore (metrics (sessions st ! i)) | Some v \<Rightarrow> Some v)) \<and>
         successRate (metrics s') =
           (case m of None \<Rightarrow> successRate (metrics (sessions st ! i))
            | Some r \<Rightarrow> (case successRate r of
                 None \<Rightarrow> successRate (metrics (sessions st ! i)) | Some v \<Rightarrow> Some v)) \<and>
         failureCount (metrics s') =
           (case m of None \<Rightarrow> failureCount (metrics (sessions st ! i))
            | Some r \<Rightarrow> (case failureCount r of
                 None \<Rightarrow> failureCount (metrics (sessions st ! i)) | Some v \<Rightarrow> Some v)) \<and>
         validFindings (metrics s') =
           (case m of None \<Rightarrow> validFindings (metrics (sessions st ! i))
            | Some r \<Rightarrow> (case validFindings r of
                 None \<Rightarrow> validFindings (metrics (sessions st ! i)) | Some v \<Rightarrow> Some v))"
    apply (rule exI[of _ i])
    apply (rule conjI[OF i(1)])
    apply (rule exI[of _ "?f (sessions st ! i)"])
    using i(2,3) res
    apply (simp add: patchMetrics_def setPath_def optField_def split: option.splits)
    done
qed

theorem completeSession_patch_witness:
  "(\<exists>s\<in>set (sessions demoBatch). sessionId s = ''s1'') \<and>
   \<not> (\<exists>s\<in>set (sessions demoBatch). sessionId s = ''zz'') \<and>
   completeSession ''zz'' (Some demoPatch) demoBatch = (Inl NotFoundError, demoBatch) \<and>
   map (\<lambda>s. (state s, totalQueryTime (metrics s), averageRewardScore (metrics s),
              successRate (metrics s), failureCount (metrics s), validFindings (metrics s)))
     (sessions (snd (completeSession ''s1'' (Some demoPatch) demoBatch))) =
     [(Completed, Some (Fin 12), Some (Fin 2), Some (Fin 50), Some (Fin 0), None)]"
  using completeSession_patch[of demoBatch "''zz''" "Some demoPatch"]
        completeSession_patch[of demoBatch "''s1''" "Some demoPatch"]
  by (simp add: demoBatch_value demoPatch_def newSession_def completeSession_def
        patchMetrics_def setPath_def optField_def)

subsection \<open>Creating a session\<close>

text \<open>
  C5, as the handler has it. \<open>createSession\<close> answers \<open>ValidationError\<close> and creates
  nothing when \<open>sampledMinerUids\<close> is absent or is not an array. For an array of numbers,
  whole or not, and an id that no session has yet, it appends one session with that id,
  state \<open>pending\<close>, the numbers as sampled miners and no miner response, computed reward
  or validation error, and with the length of the array as \<open>sampledMinerCount\<close> when no
  count is given. Whenever it answers with success, the id it returns is that of no
  earlier session. The witness runs \<open>[1, 2, 3]\<close> without a count: the count is 3.
\<close>

theorem createSession_array:
  "((\<forall>vs. v \<noteq> JArr vs) \<longrightarrow> createSession uuid now v cnt va cv st = (Inl ValidationError, st)) \<and>
   (uuid \<notin> set (map sessionId (sessions st)) \<longrightarrow>
      (\<exists>s. createSession uuid now (JArr (map JNum uids)) cnt va cv st =
             (Inr uuid, st\<lparr>sessions := sessions st @ [s]\<rparr>) \<and>
           sessionId s = uuid \<and> state s = Pending \<and> sampledMinerUids s = uids \<and>
           minerResponses s = [] \<and> computedRewards s = [] \<and> validationErrors s = [] \<and>
           (cnt = None \<longrightarrow> sampledMinerCount s = of_nat (length uids)))) \<and>
   (\<forall>r. fst (createSession uuid now v cnt va cv st) = Inr r \<longrightarrow>
      r = uuid \<and> uuid \<notin> set (map sessionId (sessions st)))"
proof -
  have a: "(\<forall>vs. v \<noteq> JArr vs) \<longrightarrow> createSession uuid now v cnt va cv st = (Inl ValidationError, st)"
    by (cases v) (simp_all add: createSession_def)
  let ?s = "newSession uuid now (countOrLength cnt (map JNum uids)) uids va cv"
  have s: "sessionId ?s = uuid \<and> state ?s = Pending \<and> sampledMinerUids ?s = uids \<and>
           minerResponses ?s = [] \<and> computedRewards ?s = [] \<and> validationErrors ?s = [] \<and>
           (cnt = None \<longrightarrow> sampledMinerCount ?s = of_nat (length uids))"
    by (simp add: newSession_def)
  have b: "uuid \<notin> set (map sessionId (sessions st)) \<longrightarrow>
      (\<exists>s. createSession uuid now (JArr (map JNum uids)) cnt va cv st =
             (Inr uuid, st\<lparr>sessions := sessions st @ [s]\<rparr>) \<and>
           sessionId s = uuid \<and> state s = Pending \<and> sampledMinerUids s = uids \<and>
           minerResponses s = [] \<and> computedRewards s = [] \<and> validationErrors s = [] \<and>
           (cnt = None \<longrightarrow> sampledMinerCount s = of_nat (length uids)))"
  proof
    assume "uuid \<notin> set (map sessionId (sessions st))"
    then have "createSession uuid now (JArr (map JNum uids)) cnt va cv st =
          (Inr uuid, st\<lparr>sessions := sessions st @ [?s]\<rparr>)"
      by (simp add: createSession_def castNumbers_map_JNum)
    with s show "\<exists>s. createSession uuid now (JArr (map JNum uids)) cnt va cv st =
             (Inr uuid, st\<lparr>sessions := sessions st @ [s]\<rparr>) \<and>
           sessionId s = uuid \<and> state s = Pending \<and> sampledMinerUids s = uids \<and>
           minerResponses s = [] \<and> computedRewards s = [] \<and> validationErrors s = [] \<and>
           (cnt = None \<longrightarrow> sampledMinerCount s = of_nat (length uids))"
      by blast
  qed
  have c: "\<forall>r. fst (createSession uuid now v cnt va cv st) = Inr r \<longrightarrow>
      r = uuid \<and> uuid \<notin> set (map sessionId (sessions st))"
    by (auto simp: createSession_def split: jsval.splits option.splits if_splits)
  from a b c show ?thesis by blast
qed

theorem createSession_array_witness:
  "(\<forall>vs. JStr ''1,2,3'' \<noteq> JArr vs) \<and>
   createSession ''s2'' 8 (JStr ''1,2,3'') None None None demoCreated =
     (Inl ValidationError, demoCreated) \<and>
   ''s2'' \<notin> set (map sessionId (sessions demoCreated)) \<and>
   fst (createSession ''s1'' 7 (JArr (map JNum [1, 2, 3])) None None None emptyStore) = Inr ''s1'' \<and>
   map (\<lambda>s. (sessionId s, state s, sampledMinerCount s, sampledMinerUids s, minerResponses s,
              computedRewards s, validationErrors s))
     (sessions (snd (createSession ''s1'' 7 (JArr (map JNum [1, 2, 3])) None None None
        emptyStore))) =
     [(''s1'', Pending, 3, [1, 2, 3], [], [], [])]"
  using createSession_array[where v = "JStr ''1,2,3''" and uuid = "''s2''" and now = 8
          and cnt = None and va = None and cv = None and st = demoCreated and uids = "[]"]
        createSession_array[where v = "JArr (map JNum [1, 2, 3])" and uuid = "''s1''" and now = 7
          and cnt = None and va = None and cv = None and st = emptyStore and uids = "[1, 2, 3]"]
  by (simp add: demoCreated_def createSession_def emptyStore_def newSession_def)

text \<open>
  An array that holds a number that is not an integer is accepted: the session is created
  with \<open>3/2\<close> among its sampled miners.
\<close>

theorem createSession_fraction_counterexample:
  "fst (createSession ''s1'' 7 (JArr [JNum (3 / 2)]) None None None emptyStore) = Inr ''s1'' \<and>
   map sampledMinerUids
     (sessions (snd (createSession ''s1'' 7 (JArr [JNum (3 / 2)]) None None None emptyStore))) =
     [[3 / 2]]"
  by (simp add: createSession_def emptyStore_def newSession_def)

subsection \<open>The state of a session\<close>

lemma findOneAndUpdate_nth:
  assumes "findOneAndUpdate P f xs = Some ys"
  shows "length ys = length xs \<and> (\<forall>i<length xs. ys ! i = xs ! i \<or> ys ! i = f (xs ! i))"
proof -
  from findOneAndUpdate_Some[OF assms] obtain k where "k < length xs" "ys = xs[k := f (xs ! k)]"
    by blast
  then show ?thesis by (auto simp: nth_list_update)
qed

lemma update_or_keep_nth:
  assumes "i < length xs"
  shows "i < length (case findOneAndUpdate P f xs of None \<Rightarrow> xs | Some ys \<Rightarrow> ys) \<and>
         ((case findOneAndUpdate P f xs of None \<Rightarrow> xs | Some ys \<Rightarrow> ys) ! i = xs ! i \<or>
          (case findOneAndUpdate P f xs of None \<Rightarrow> xs | Some ys \<Rightarrow> ys) ! i = f (xs ! i))"
  using assms findOneAndUpdate_nth[of P f xs]
  by (cases "findOneAndUpdate P f xs") auto

lemma sessions_createSession:
  "i < length (sessions st) \<Longrightarrow>
   i < length (sessions (snd (createSession uuid now v cnt va cv st))) \<and>
   sessions (snd (createSession uuid now v cnt va cv st)) ! i = sessions st ! i"
  by (auto simp: createSession_def nth_append split: jsval.splits option.splits)

lemma sessions_recordChallenge:
  assumes "i < length (sessions st)"
  shows "i < length (sessions (snd (recordChallenge now sid pid d df raw st))) \<and>
   sessionId (sessions (snd (recordChallenge now sid pid d df raw st)) ! i) = sessionId (sessions st ! i) \<and>
   (state (sessions (snd (recordChallenge now sid pid d df raw st)) ! i) = state (sessions st ! i) \<or>
    state (sessions (snd (recordChallenge now sid pid d df raw st)) ! i) = InProgress)"
proof -
  let ?f = "\<lambda>s. s\<lparr>state := InProgress, projectId := pid,
                 challengeInfo :=
                   \<lparr>ci_projectId = pid,
                    ci_description = setPath d (ci_description (challengeInfo s)),
                    ci_difficulty = setPath df (ci_difficulty (challengeInfo s)),
                    ci_createdAt = Some now,
                    ci_rawData = setPath raw (ci_rawData (challengeInfo s))\<rparr>\<rparr>"
  have "sessions (snd (recordChallenge now sid pid d df raw st)) = sessions st \<or>
        sessions (snd (recordChallenge now sid pid d df raw st)) =
          (case findOneAndUpdate (\<lambda>s. sessionId s = sid) ?f (sessions st) of
             None \<Rightarrow> sessions st | Some ss \<Rightarrow> ss)"
    by (auto simp: recordChallenge_def split: jsval.splits option.splits if_splits)
  then show ?thesis
    using assms update_or_keep_nth[OF assms, of "\<lambda>s. sessionId s = sid" ?f] by auto
qed

lemma sessions_recordGroundTruth:
  assumes "i < length (sessions st)"
  shows "i < length (sessions (snd (recordGroundTruth sid rid vs ci raw st))) \<and>
   sessionId (sessions (snd (recordGroundTruth sid rid vs ci raw st)) ! i) = sessionId (sessions st ! i) \<and>
   state (sessions (snd (recordGroundTruth sid rid vs ci raw st)) ! i) = state (sessions st ! i)"
proof -
  let ?f = "\<lambda>s. s\<lparr>groundTruth :=
                   \<lparr>gt_reportId = setPath rid (gt_reportId (groundTruth s)),
                    gt_vulnerabilities = (case vs of None \<Rightarrow> [] | Some v \<Rightarrow> v),
                    gt_criticalIssues = setPath ci (gt_criticalIssues (groundTruth s)),
                    gt_rawData = setPath raw (gt_rawData (groundTruth s))\<rparr>\<rparr>"
  have "sessions (snd (recordGroundTruth sid rid vs ci raw st)) = sessions st \<or>
        sessions (snd (recordGroundTruth sid rid vs ci raw st)) =
          (case findOneAndUpdate (\<lambda>s. sessionId s = sid) ?f (sessions st) of
             None \<Rightarrow> sessions st | Some ss \<Rightarrow> ss)"
    by (auto simp: recordGroundTruth_def split: jsval.splits option.splits if_splits)
  then show ?thesis
    using assms update_or_keep_nth[OF assms, of "\<lambda>s. sessionId s = sid" ?f] by auto
qed

lemma sessions_recordMinerResponse:
  assumes "i < length (sessions st)"
  shows "i < length (sessions (snd (recordMinerResponse now sid uid url rt ok msg perf st))) \<and>
   sessionId (sessions (snd (recordMinerResponse now sid uid url rt ok msg perf st)) ! i) = sessionId (sessions st ! i) \<and>
   state (sessions (snd (recordMinerResponse now sid uid url rt ok msg perf st)) ! i) = state (sessions st ! i)"
proof -
  let ?f = "\<lambda>s. s\<lparr>minerResponses := minerResponses s @
                   [\<lparr>mr_minerUid = (case uid of JNum u \<Rightarrow> u | _ \<Rightarrow> 0), mr_githubUrl = url,
                     mr_responseTime = rt, mr_success = ok,
                     mr_errorMessage = msg, mr_timestamp = now,
                     mr_agentPerformance =
                       (case perf of None \<Rightarrow> emptyPerformance | Some a \<Rightarrow> a),
                     mr_rewardScore = None, mr_rewardReason = None\<rparr>]\<rparr>"
  have "sessions (snd (recordMinerResponse now sid uid url rt ok msg perf st)) = sessions st \<or>
        sessions (snd (recordMinerResponse now sid uid url rt ok msg perf st)) =
          (case findOneAndUpdate (\<lambda>s. sessionId s = sid) ?f (sessions st) of
             None \<Rightarrow> sessions st | Some ss \<Rightarrow> ss)"
    by (auto simp: recordMinerResponse_def split: jsval.splits option.splits if_splits)
  then show ?thesis
    using assms update_or_keep_nth[OF assms, of "\<lambda>s. sessionId s = sid" ?f] by auto
qed

lemma sessions_recordRewardsBatch:
  assumes "i < length (sessions st)"
  shows "i < length (sessions (snd (recordRewardsBatch uuid now sid us rs st))) \<and>
   sessionId (sessions (snd (recordRewardsBatch uuid now sid us rs st)) ! i) = sessionId (sessions st ! i) \<and>
   state (sessions (snd (recordRewardsBatch uuid now sid us rs st)) ! i) = state (sessions st ! i)"
proof -
  let ?f = "\<lambda>s. s\<lparr>computedRewards :=
                   zipRewards now (case us of JArr a \<Rightarrow> the (castDoubles a) | _ \<Rightarrow> [])
                     (case rs of JArr b \<Rightarrow> the (castDoubles b) | _ \<Rightarrow> []),
                 metrics :=
                   batchMetrics (case us of JArr a \<Rightarrow> length a | _ \<Rightarrow> 0)
                     (case rs of JArr b \<Rightarrow> the (castDoubles b) | _ \<Rightarrow> [])\<rparr>"
  have "sessions (snd (recordRewardsBatch uuid now sid us rs st)) = sessions st \<or>
        sessions (snd (recordRewardsBatch uuid now sid us rs st)) =
          (case findOneAndUpdate (\<lambda>s. sessionId s = sid) ?f (sessions st) of
             None \<Rightarrow> sessions st | Some ss \<Rightarrow> ss)"
    by (auto simp: recordRewardsBatch_def split: jsval.splits option.splits if_splits)
  then show ?thesis
    using assms update_or_keep_nth[OF assms, of "\<lambda>s. sessionId s = sid" ?f] by auto
qed

lemma sessions_recordSubnetSnapshot:
  assumes "i < length (sessions st)"
  shows "i < length (sessions (snd (recordSubnetSnapshot now sid netuid block av am ts em st))) \<and>
   sessionId (sessions (snd (recordSubnetSnapshot now sid netuid block av am ts em st)) ! i) = sessionId (sessions st ! i) \<and>
   state (sessions (snd (recordSubnetSnapshot now sid netuid block av am ts em st)) ! i) = state (sessions st ! i)"
proof -
  let ?f = "\<lambda>s. s\<lparr>subnetSnapshot :=
                   \<lparr>ss_netuid = (case netuid of JNum n \<Rightarrow> Some n | _ \<Rightarrow> None),
                    ss_block = (case block of JNum b \<Rightarrow> Some b | _ \<Rightarrow> None),
                    ss_activeValidators =
                      setPath av (ss_activeValidators (subnetSnapshot s)),
                    ss_activeMiners = setPath am (ss_activeMiners (subnetSnapshot s)),
                    ss_totalStake = setPath ts (ss_totalStake (subnetSnapshot s)),
                    ss_emissionPerBlock =
                      setPath em (ss_emissionPerBlock (subnetSnapshot s)),
                    ss_timestamp = Some now\<rparr>\<rparr>"
  have "sessions (snd (recordSubnetSnapshot now sid netuid block av am ts em st)) = sessions st \<or>
        sessions (snd (recordSubnetSnapshot now sid netuid block av am ts em st)) =
          (case findOneAndUpdate (\<lambda>s. sessionId s = sid) ?f (sessions st) of
             None \<Rightarrow> sessions st | Some ss \<Rightarrow> ss)"
    by (auto simp: recordSubnetSnapshot_def split: jsval.splits option.splits if_splits)
  then show ?thesis
    using assms update_or_keep_nth[OF assms, of "\<lambda>s. sessionId s = sid" ?f] by auto
qed

lemma sessions_logError:
  assumes "i < length (sessions st)"
  shows "i < length (sessions (snd (logError now sid stage message trace st))) \<and>
   sessionId (sessions (snd (logError now sid stage message trace st)) ! i) = sessionId (sessions st ! i) \<and>
   state (sessions (snd (logError now sid stage message trace st)) ! i) = state (sessions st ! i)"
proof -
  let ?f = "\<lambda>s. s\<lparr>validationErrors := validationErrors s @
                   [\<lparr>ve_stage = (case stage of None \<Rightarrow> [] | Some x \<Rightarrow> x),
                     ve_message = (case message of None \<Rightarrow> [] | Some x \<Rightarrow> x),
                     ve_timestamp = now, ve_stackTrace = trace\<rparr>]\<rparr>"
  have "sessions (snd (logError now sid stage message trace st)) = sessions st \<or>
        sessions (snd (logError now sid stage message trace st)) =
          (case findOneAndUpdate (\<lambda>s. sessionId s = sid) ?f (sessions st) of
             None \<Rightarrow> sessions st | Some ss \<Rightarrow> ss)"
    by (auto simp: logError_def split: jsval.splits option.splits if_splits)
  then show ?thesis
    using assms update_or_keep_nth[OF assms, of "\<lambda>s. sessionId s = sid" ?f] by auto
qed

lemma sessions_completeSession:
  assumes "i < length (sessions st)"
  shows "i < length (sessions (snd (completeSession sid m st))) \<and>
   sessionId (sessions (snd (completeSession sid m st)) ! i) = sessionId (sessions st ! i) \<and>
   (state (sessions (snd (completeSession sid m st)) ! i) = state (sessions st ! i) \<or>
    state (sessions (snd (completeSession sid m st)) ! i) = Completed)"
proof -
  let ?f = "\<lambda>s. s\<lparr>state := Completed, metrics := patchMetrics m (metrics s)\<rparr>"
  have "sessions (snd (completeSession sid m st)) = sessions st \<or>
        sessions (snd (completeSession sid m st)) =
          (case findOneAndUpdate (\<lambda>s. sessionId s = sid) ?f (sessions st) of
             None \<Rightarrow> sessions st | Some ss \<Rightarrow> ss)"
    by (auto simp: completeSession_def split: jsval.splits option.splits if_splits)
  then show ?thesis
    using assms update_or_keep_nth[OF assms, of "\<lambda>s. sessionId s = sid" ?f] by auto
qed

lemma sessions_recordMinerReward:
  assumes "i < length (sessions st)"
  shows "i < length (sessions (snd (recordMinerReward now sid uid score reason st))) \<and>
   sessionId (sessions (snd (recordMinerReward now sid uid score reason st)) ! i) =
     sessionId (sessions st ! i) \<and>
   state (sessions (snd (recordMinerReward now sid uid score reason st)) ! i) =
     state (sessions st ! i)"
proof -
  let ?u = "case uid of JNum u \<Rightarrow> u | _ \<Rightarrow> 0"
  let ?f = "\<lambda>s. s\<lparr>minerResponses := updateFirst (\<lambda>r. mr_minerUid r = ?u)
                      (setReward score reason) (minerResponses s)\<rparr>"
  have "sessions (snd (recordMinerReward now sid uid score reason st)) = sessions st \<or>
        sessions (snd (recordMinerReward now sid uid score reason st)) =
          (case findOneAndUpdate (hasResponse sid ?u) ?f (sessions st) of
             None \<Rightarrow> sessions st | Some ss \<Rightarrow> ss)"
    by (auto simp: recordMinerReward_def split: jsval.splits option.splits if_splits)
  then show ?thesis
    using assms update_or_keep_nth[OF assms, of "hasResponse sid ?u" ?f] by auto
qed

lemma recordChallenge_sets_state:
  assumes i: "i < length (sessions st)" "sessionId (sessions st ! i) = sid"
    "\<forall>j<i. sessionId (sessions st ! j) \<noteq> sid"
    and p: "p \<noteq> []"
  shows "state (sessions (snd (recordChallenge now sid (Some p) d df raw st)) ! i) = InProgress"
proof -
  let ?f = "\<lambda>s. s\<lparr>state := InProgress, projectId := Some p,
                 challengeInfo :=
                   \<lparr>ci_projectId = Some p,
                    ci_description = setPath d (ci_description (challengeInfo s)),
                    ci_difficulty = setPath df (ci_difficulty (challengeInfo s)),
                    ci_createdAt = Some now,
                    ci_rawData = setPath raw (ci_rawData (challengeInfo s))\<rparr>\<rparr>"
  from i(1,2) have "\<exists>s\<in>set (sessions st). sessionId s = sid"
    using nth_mem[of i "sessions st"] by blast
  then have "findOneAndUpdate (\<lambda>s. sessionId s = sid) ?f (sessions st) \<noteq> None"
    by (simp add: findOneAndUpdate_None)
  then obtain ss where ss: "findOneAndUpdate (\<lambda>s. sessionId s = sid) ?f (sessions st) = Some ss"
    by blast
  from findOneAndUpdate_Some[OF ss] obtain k where k: "k < length (sessions st)"
    "sessionId (sessions st ! k) = sid" "\<forall>j<k. sessionId (sessions st ! j) \<noteq> sid"
    "ss = (sessions st)[k := ?f (sessions st ! k)]" by blast
  have "k = i"
  proof (rule ccontr)
    assume "k \<noteq> i"
    then consider "k < i" | "i < k" by linarith
    then show False
    proof cases
      case 1
      with i(3) k(2) show False by blast
    next
      case 2
      with k(3) i(2) show False by blast
    qed
  qed
  with k(4) i(1) have "ss ! i = ?f (sessions st ! i)" by simp
  moreover have "snd (recordChallenge now sid (Some p) d df raw st) = st\<lparr>sessions := ss\<rparr>"
    using ss p by (simp add: recordChallenge_def)
  ultimately show ?thesis by simp
qed

text \<open>
  C3, as the handlers have it. One request keeps every session of the store at its
  position with its id. A request other than \<open>recordChallenge\<close> leaves a completed session
  completed; \<open>recordChallenge\<close> leaves the state or makes it \<open>in-progress\<close>, and with a
  project id that is not empty it makes the state of the first session with the id
  \<open>in-progress\<close> whatever it was; and no request makes the state of an existing session
  \<open>pending\<close> again.
\<close>

theorem exec_state:
  assumes "i < length (sessions st)"
  shows "i < length (sessions (exec now op st)) \<and>
         sessionId (sessions (exec now op st) ! i) = sessionId (sessions st ! i) \<and>
         (state (sessions st ! i) = Completed \<and> \<not> isRecordChallenge op \<longrightarrow>
            state (sessions (exec now op st) ! i) = Completed) \<and>
         (isRecordChallenge op \<longrightarrow>
            state (sessions (exec now op st) ! i) = state (sessions st ! i) \<or>
            state (sessions (exec now op st) ! i) = InProgress) \<and>
         (state (sessions st ! i) \<noteq> Pending \<longrightarrow>
            state (sessions (exec now op st) ! i) \<noteq> Pending) \<and>
         (\<forall>sid p d df raw.
            op = RecordChallenge sid (Some p) d df raw \<and> p \<noteq> [] \<and>
            sessionId (sessions st ! i) = sid \<and>
            (\<forall>j<i. sessionId (sessions st ! j) \<noteq> sid) \<longrightarrow>
            state (sessions (exec now op st) ! i) = InProgress)"
proof (cases op)
  case (CreateSession uuid v cnt va cv)
  then show ?thesis using sessions_createSession[OF assms, of uuid now v cnt va cv] by simp
next
  case (RecordChallenge sid pid d df raw)
  then show ?thesis
    using sessions_recordChallenge[OF assms, of now sid pid d df raw]
      recordChallenge_sets_state[OF assms, of sid _ now d df raw]
    by auto
next
  case (RecordGroundTruth sid rid vs ci raw)
  then show ?thesis using sessions_recordGroundTruth[OF assms, of sid rid vs ci raw] by simp
next
  case (RecordMinerResponse sid uid url rt ok msg perf)
  then show ?thesis
    using sessions_recordMinerResponse[OF assms, of now sid uid url rt ok msg perf] by simp
next
  case (RecordMinerReward sid uid score reason)
  then show ?thesis using sessions_recordMinerReward[OF assms, of now sid uid score reason] by simp
next
  case (RecordRewardsBatch uuid sid us rs)
  then show ?thesis using sessions_recordRewardsBatch[OF assms, of uuid now sid us rs] by simp
next
  case (RecordSubnetSnapshot sid netuid block av am ts em)
  then show ?thesis
    using sessions_recordSubnetSnapshot[OF assms, of now sid netuid block av am ts em] by simp
next
  case (LogError sid stage message trace)
  then show ?thesis using sessions_logError[OF assms, of now sid stage message trace] by simp
next
  case (CompleteSession sid m)
  then show ?thesis using sessions_completeSession[OF assms, of sid m] by auto
qed

theorem exec_state_witness:
  "0 < length (sessions demoCompleted) \<and>
   map state (sessions demoCompleted) = [Completed] \<and>
   \<not> isRecordChallenge (RecordRewardsBatch ''u2'' ''s1'' (JArr [JNum 3]) (JArr [JNum 4])) \<and>
   state (sessions (exec 20 (RecordRewardsBatch ''u2'' ''s1'' (JArr [JNum 3]) (JArr [JNum 4]))
       demoCompleted) ! 0) = Completed"
proof -
  have h: "0 < length (sessions demoCompleted)"
    by (simp add: demoCompleted_value newSession_def)
  have c: "map state (sessions demoCompleted) = [Completed]"
    by (simp add: demoCompleted_value newSession_def)
  from c have c0: "state (sessions demoCompleted ! 0) = Completed"
    by (cases "sessions demoCompleted") auto
  from exec_state[OF h, of 20 "RecordRewardsBatch ''u2'' ''s1'' (JArr [JNum 3]) (JArr [JNum 4])"]
    h c c0
  show ?thesis by simp
qed

text \<open>A completed session is \<open>in-progress\<close> again after \<open>recordChallenge\<close>.\<close>

theorem recordChallenge_reopens_counterexample:
  "map state (sessions demoCompleted) = [Completed] \<and>
   map state
     (sessions (exec 40 (RecordChallenge ''s1'' (Some ''p1'') None None None) demoCompleted)) =
     [InProgress]"
  by (simp add: demoCompleted_value newSession_def recordChallenge_def)

subsection \<open>The leaderboard\<close>

lemma groupStage_ids: "map lg_id (groupStage acc hs) = remdups (map mh_minerUid hs)"
  by (simp add: groupStage_def groupOf_def Let_def comp_def)

lemma groupStage_member:
  assumes "g \<in> set (groupStage acc hs)"
  shows "g = groupOf acc hs (lg_id g)" and "lg_id g \<in> mh_minerUid ` set hs"
proof -
  from assms obtain u where u: "u \<in> set (remdups (map mh_minerUid hs))" "g = groupOf acc hs u"
    by (auto simp: groupStage_def)
  have "lg_id (groupOf acc hs u) = u" by (simp add: groupOf_def Let_def)
  with u show "g = groupOf acc hs (lg_id g)" by simp
  from u \<open>lg_id (groupOf acc hs u) = u\<close> show "lg_id g \<in> mh_minerUid ` set hs" by auto
qed

lemma groupStage_distinct: "distinct (map lg_id (groupStage acc hs))"
  by (simp add: groupStage_ids)

lemma sortStage_distinct: "distinct (map lg_id (sortStage (groupStage acc hs)))"
proof -
  from groupStage_distinct[of acc hs]
  have d: "distinct (groupStage acc hs)" and i: "inj_on lg_id (set (groupStage acc hs))"
    by (simp_all add: distinct_map)
  then show ?thesis by (simp add: sortStage_def distinct_map)
qed

lemma sortStage_descending:
  "sorted_wrt (\<lambda>x y. lg_totalRewards y \<le> lg_totalRewards x) (sortStage gs)"
proof -
  have "sorted (map lg_totalRewards (sort_key lg_totalRewards gs))" by simp
  then have "sorted_wrt (\<lambda>x y. lg_totalRewards x \<le> lg_totalRewards y)
               (sort_key lg_totalRewards gs)"
    by (simp only: sorted_map)
  then show ?thesis by (simp add: sortStage_def sorted_wrt_rev)
qed

lemma entries_fields:
  "map le_minerUid (map toEntry (enumerate 0 ts)) = map lg_id ts"
  "map le_totalRewards (map toEntry (enumerate 0 ts)) = map lg_totalRewards ts"
  "map le_participationCount (map toEntry (enumerate 0 ts)) = map lg_participationCount ts"
  "map le_rank (map toEntry (enumerate 0 ts)) = [1..<Suc (length ts)]"
proof -
  have "map le_minerUid (map toEntry (enumerate 0 ts)) = map lg_id (map snd (enumerate 0 ts))"
    by (simp add: toEntry_def comp_def del: map_snd_enumerate)
  then show "map le_minerUid (map toEntry (enumerate 0 ts)) = map lg_id ts" by simp
  have "map le_totalRewards (map toEntry (enumerate 0 ts)) =
        map lg_totalRewards (map snd (enumerate 0 ts))"
    by (simp add: toEntry_def comp_def del: map_snd_enumerate)
  then show "map le_totalRewards (map toEntry (enumerate 0 ts)) = map lg_totalRewards ts" by simp
  have "map le_participationCount (map toEntry (enumerate 0 ts)) =
        map lg_participationCount (map snd (enumerate 0 ts))"
    by (simp add: toEntry_def comp_def del: map_snd_enumerate)
  then show "map le_participationCount (map toEntry (enumerate 0 ts)) =
        map lg_participationCount ts" by simp
  have "map le_rank (map toEntry (enumerate 0 ts)) = map Suc (map fst (enumerate 0 ts))"
    by (simp add: toEntry_def comp_def del: map_fst_enumerate)
  then show "map le_rank (map toEntry (enumerate 0 ts)) = [1..<Suc (length ts)]"
    by (simp add: map_Suc_upt)
qed

lemma somes_concat:
  "somes (map f xs) = concat (map (\<lambda>x. case f x of None \<Rightarrow> [] | Some r \<Rightarrow> [r]) xs)"
proof (induction xs)
  case Nil
  then show ?case by simp
next
  case (Cons x xs)
  then show ?case by (cases "f x") simp_all
qed

lemma groupOf_fields:
  "lg_id (groupOf acc hs u) = u"
  "lg_totalRewards (groupOf acc hs u) =
     acc_sum acc (concat (map (\<lambda>h. case mh_rewardScore h of None \<Rightarrow> [] | Some r \<Rightarrow> [r])
       (filter (\<lambda>h. mh_minerUid h = u) hs)))"
  "lg_participationCount (groupOf acc hs u) = length (filter (\<lambda>h. mh_minerUid h = u) hs)"
  by (simp_all add: groupOf_def Let_def somes_concat)

text \<open>
  C7. The window starts at the time the handler computes from the current time: for
  \<open>24h\<close>, \<open>7d\<close> and \<open>30d\<close> the local time of the host moved back by 86400000, 604800000
  and 2592000000 milliseconds and taken back to UTC, for any other range the current
  time. Every list of entries the leaderboard returns comes from a positive limit and has
  one entry for each miner with a history entry of that start or later, up to the limit:
  its length is the smaller of the limit and the number of those miners, no miner occurs
  twice, and each entry carries the database's sum of the rewards and the number of the
  history entries of its miner in the window. The entries are in descending order of
  total reward, a miner that was cut off has no more than any miner kept, and the entry
  at position \<open>i\<close> has rank \<open>i + 1\<close>: the ranks are \<open>1, 2, \<dots>, N\<close>.
\<close>

theorem leaderboard_ranked:
  fixes acc :: "('v :: linorder, 'a) accumulators" and tza :: "bool \<Rightarrow> int \<Rightarrow> int"
    and now :: int and timeRange :: string and limit :: "int option" and st :: store
    and es :: "'v LeaderEntry list"
  defines "localNow \<equiv> now + tza True now"
  defines "back \<equiv> \<lambda>k. (localNow - k) - tza False (localNow - k)"
  defines "start \<equiv>
    (if timeRange = ''24h'' then back 86400000
     else if timeRange = ''7d'' then back 604800000
     else if timeRange = ''30d'' then back 2592000000
     else now)"
  defines "window \<equiv> filter (\<lambda>h. start \<le> mh_timestamp h) (minerHistory st)"
  defines "totalOf \<equiv> \<lambda>u. acc_sum acc
    (concat (map (\<lambda>h. case mh_rewardScore h of None \<Rightarrow> [] | Some r \<Rightarrow> [r])
       (filter (\<lambda>h. mh_minerUid h = u) window)))"
  assumes ok: "leaderboard acc tza now timeRange limit st = Inr es"
  shows "(\<exists>n. limit = Some n \<and> 0 < n \<and>
              length es = min (nat n) (card (mh_minerUid ` set window))) \<and>
         map le_rank es = [1..<Suc (length es)] \<and>
         (\<forall>i j. i \<le> j \<and> j < length es \<longrightarrow>
            le_totalRewards (es ! j) \<le> le_totalRewards (es ! i)) \<and>
         distinct (map le_minerUid es) \<and>
         (\<forall>e\<in>set es. le_minerUid e \<in> mh_minerUid ` set window \<and>
            le_totalRewards e = totalOf (le_minerUid e) \<and>
            le_participationCount e =
              length (filter (\<lambda>h. mh_minerUid h = le_minerUid e) window)) \<and>
         (\<forall>u\<in>mh_minerUid ` set window. u \<notin> le_minerUid ` set es \<longrightarrow>
            (\<forall>e\<in>set es. totalOf u \<le> le_totalRewards e))"
proof -
  from ok obtain n where n: "limit = Some n" "0 < n"
    by (auto simp: leaderboard_def split: option.splits if_splits)
  have start: "startDate tza now timeRange = start"
    by (simp add: startDate_def LocalTime_def UTC_def start_def back_def localNow_def)
  define gs where "gs = groupStage acc window"
  define ss where "ss = sortStage gs"
  define ts where "ts = take (nat n) ss"
  have es: "es = map toEntry (enumerate 0 ts)"
    using ok n by (simp add: leaderboard_def ts_def ss_def gs_def window_def matchStage_def start)
  have uid: "map le_minerUid es = map lg_id ts"
    and tot: "map le_totalRewards es = map lg_totalRewards ts"
    and cnt: "map le_participationCount es = map lg_participationCount ts"
    and rk: "map le_rank es = [1..<Suc (length ts)]"
    unfolding es by (rule entries_fields)+
  have len: "length es = length ts" by (simp add: es)
  have set_ss: "set ss = set gs" by (simp add: ss_def sortStage_def)
  have grp: "g = groupOf acc window (lg_id g)" "lg_id g \<in> mh_minerUid ` set window"
    if "g \<in> set gs" for g
    using that groupStage_member[of g acc window] by (simp_all add: gs_def)
  have gtot: "lg_totalRewards g = totalOf (lg_id g)"
    and gcnt: "lg_participationCount g = length (filter (\<lambda>h. mh_minerUid h = lg_id g) window)"
    if "g \<in> set gs" for g
  proof -
    from grp(1)[OF that]
    have "lg_totalRewards g = lg_totalRewards (groupOf acc window (lg_id g))"
      by simp
    then show "lg_totalRewards g = totalOf (lg_id g)" by (simp add: groupOf_fields totalOf_def)
    from grp(1)[OF that]
    have "lg_participationCount g = lg_participationCount (groupOf acc window (lg_id g))"
      by simp
    then show "lg_participationCount g = length (filter (\<lambda>h. mh_minerUid h = lg_id g) window)"
      by (simp add: groupOf_fields)
  qed
  have ts_sub: "set ts \<subseteq> set gs"
    using set_take_subset[of "nat n" ss] by (simp add: ts_def set_ss)
  \<comment> \<open>the number of entries\<close>
  have "length gs = card (mh_minerUid ` set window)"
  proof -
    have "length gs = length (map lg_id gs)" by simp
    also have "\<dots> = length (remdups (map mh_minerUid window))"
      by (simp only: gs_def groupStage_ids)
    also have "\<dots> = card (mh_minerUid ` set window)"
      by (simp add: length_remdups_card_conv)
    finally show ?thesis .
  qed
  then have c1: "length es = min (nat n) (card (mh_minerUid ` set window))"
    by (simp add: len ts_def ss_def sortStage_def min.commute)
  \<comment> \<open>the ranks\<close>
  have c2: "map le_rank es = [1..<Suc (length es)]" by (simp add: rk len)
  \<comment> \<open>the order\<close>
  have sorted_ss: "sorted_wrt (\<lambda>x y. lg_totalRewards y \<le> lg_totalRewards x) ss"
    unfolding ss_def by (rule sortStage_descending)
  have split: "ss = ts @ drop (nat n) ss" by (simp add: ts_def)
  have "sorted_wrt (\<lambda>x y. lg_totalRewards y \<le> lg_totalRewards x) (ts @ drop (nat n) ss)"
    using sorted_ss split by simp
  then have sorted_ts: "sorted_wrt (\<lambda>x y. lg_totalRewards y \<le> lg_totalRewards x) ts"
    and above: "\<forall>x\<in>set ts. \<forall>y\<in>set (drop (nat n) ss). lg_totalRewards y \<le> lg_totalRewards x"
    by (simp_all only: sorted_wrt_append) blast+
  have nth_tot: "le_totalRewards (es ! i) = lg_totalRewards (ts ! i)" if "i < length es" for i
  proof -
    have "le_totalRewards (es ! i) = map le_totalRewards es ! i" using that by simp
    also have "\<dots> = lg_totalRewards (ts ! i)" using that len by (simp add: tot)
    finally show ?thesis .
  qed
  have c3: "\<forall>i j. i \<le> j \<and> j < length es \<longrightarrow> le_totalRewards (es ! j) \<le> le_totalRewards (es ! i)"
  proof (intro allI impI)
    fix i j assume ij: "i \<le> j \<and> j < length es"
    have "lg_totalRewards (ts ! j) \<le> lg_totalRewards (ts ! i)"
    proof (cases "i = j")
      case True
      then show ?thesis by simp
    next
      case False
      with ij have "i < j" "j < length ts" by (simp_all add: len)
      with sorted_ts show ?thesis by (simp add: sorted_wrt_iff_nth_less)
    qed
    then show "le_totalRewards (es ! j) \<le> le_totalRewards (es ! i)"
      using ij by (simp add: nth_tot)
  qed
  \<comment> \<open>one entry for each miner\<close>
  have dss: "distinct (map lg_id ss)"
    unfolding ss_def gs_def by (rule sortStage_distinct)
  have "distinct (map lg_id ts)"
    using dss distinct_take[of "map lg_id ss" "nat n"] by (simp add: ts_def take_map)
  then have c4: "distinct (map le_minerUid es)" by (simp add: uid)
  \<comment> \<open>each entry is the group of its miner\<close>
  have entry: "\<exists>g\<in>set ts. le_minerUid e = lg_id g \<and> le_totalRewards e = lg_totalRewards g \<and>
                 le_participationCount e = lg_participationCount g" if "e \<in> set es" for e
  proof -
    from that obtain p where p: "p \<in> set (enumerate 0 ts)" "e = toEntry p"
      by (auto simp: es)
    then have "fst p < length ts" "ts ! fst p = snd p"
      by (simp_all add: in_set_enumerate_eq)
    then have "snd p \<in> set ts" using nth_mem[of "fst p" ts] by simp
    with p(2) show ?thesis by (auto simp: toEntry_def)
  qed
  have c5: "\<forall>e\<in>set es. le_minerUid e \<in> mh_minerUid ` set window \<and>
            le_totalRewards e = totalOf (le_minerUid e) \<and>
            le_participationCount e =
              length (filter (\<lambda>h. mh_minerUid h = le_minerUid e) window)"
  proof
    fix e assume "e \<in> set es"
    from entry[OF this] obtain g where g: "g \<in> set ts" "le_minerUid e = lg_id g"
      "le_totalRewards e = lg_totalRewards g" "le_participationCount e = lg_participationCount g"
      by blast
    from g(1) ts_sub have "g \<in> set gs" by blast
    with g grp(2)[of g] gtot[of g] gcnt[of g]
    show "le_minerUid e \<in> mh_minerUid ` set window \<and>
            le_totalRewards e = totalOf (le_minerUid e) \<and>
            le_participationCount e =
              length (filter (\<lambda>h. mh_minerUid h = le_minerUid e) window)"
      by simp
  qed
  \<comment> \<open>the miners cut off have no more than the miners kept\<close>
  have c6: "\<forall>u\<in>mh_minerUid ` set window. u \<notin> le_minerUid ` set es \<longrightarrow>
            (\<forall>e\<in>set es. totalOf u \<le> le_totalRewards e)"
  proof (intro ballI impI)
    fix u e
    assume u: "u \<in> mh_minerUid ` set window" and out: "u \<notin> le_minerUid ` set es"
      and e: "e \<in> set es"
    have "set (map lg_id gs) = mh_minerUid ` set window"
      by (simp only: gs_def groupStage_ids) simp
    with u have "u \<in> lg_id ` set gs" by simp
    then obtain y where y: "y \<in> set gs" "lg_id y = u" by blast
    have "set (map le_minerUid es) = set (map lg_id ts)" by (simp only: uid)
    with out y(2) have "y \<notin> set ts" by auto
    moreover from y(1) set_ss split have "y \<in> set ts \<union> set (drop (nat n) ss)"
      by (metis set_append)
    ultimately have yd: "y \<in> set (drop (nat n) ss)" by blast
    from entry[OF e] obtain g where g: "g \<in> set ts" "le_totalRewards e = lg_totalRewards g"
      by blast
    from above g(1) yd have "lg_totalRewards y \<le> lg_totalRewards g" by auto
    with gtot[OF y(1)] y(2) g(2) show "totalOf u \<le> le_totalRewards e" by simp
  qed
  from n c1 c2 c3 c4 c5 c6 show ?thesis by blast
qed

theorem leaderboard_ranked_witness:
  "leaderboard demoAcc utcZone 3000000000 ''24h'' (Some 10) demoHistory =
     Inr [\<lparr>le_rank = 1, le_minerUid = 2, le_totalRewards = 5, le_participationCount = 1\<rparr>,
          \<lparr>le_rank = 2, le_minerUid = 1, le_totalRewards = 2, le_participationCount = 1\<rparr>,
          \<lparr>le_rank = 3, le_minerUid = 7, le_totalRewards = 1, le_participationCount = 1\<rparr>] \<and>
   leaderboard demoAcc utcZone 3000000000 ''7d'' (Some 10) demoHistory =
     Inr [\<lparr>le_rank = 1, le_minerUid = 3, le_totalRewards = 7, le_participationCount = 1\<rparr>,
          \<lparr>le_rank = 2, le_minerUid = 2, le_totalRewards = 5, le_participationCount = 1\<rparr>,
          \<lparr>le_rank = 3, le_minerUid = 1, le_totalRewards = 3, le_participationCount = 2\<rparr>,
          \<lparr>le_rank = 4, le_minerUid = 7, le_totalRewards = 1, le_participationCount = 1\<rparr>] \<and>
   leaderboard demoAcc utcZone 3000000000 ''30d'' (Some 2) demoHistory =
     Inr [\<lparr>le_rank = 1, le_minerUid = 4, le_totalRewards = 9, le_participationCount = 1\<rparr>,
          \<lparr>le_rank = 2, le_minerUid = 3, le_totalRewards = 7, le_participationCount = 1\<rparr>] \<and>
   leaderboard demoAcc utcZone 3000000000 ''1y'' (Some 10) demoHistory =
     Inr [\<lparr>le_rank = 1, le_minerUid = 7, le_totalRewards = 1, le_participationCount = 1\<rparr>] \<and>
   leaderboard demoAcc dstZone 3000000000 ''24h'' (Some 10) demoHistory =
     Inr [\<lparr>le_rank = 1, le_minerUid = 1, le_totalRewards = 2, le_participationCount = 1\<rparr>,
          \<lparr>le_rank = 2, le_minerUid = 7, le_totalRewards = 1, le_participationCount = 1\<rparr>] \<and>
   length [\<lparr>le_rank = 1, le_minerUid = 4, le_totalRewards = 9 :: rat, le_participationCount = 1\<rparr>,
          \<lparr>le_rank = 2, le_minerUid = 3, le_totalRewards = 7, le_participationCount = 1\<rparr>] =
     min (nat 2)
       (card (mh_minerUid ` set (filter (\<lambda>h. 408000000 \<le> mh_timestamp h)
          (minerHistory demoHistory))))"
proof -
  have a: "leaderboard demoAcc utcZone 3000000000 ''24h'' (Some 10) demoHistory =
     Inr [\<lparr>le_rank = 1, le_minerUid = 2, le_totalRewards = 5, le_participationCount = 1\<rparr>,
          \<lparr>le_rank = 2, le_minerUid = 1, le_totalRewards = 2, le_participationCount = 1\<rparr>,
          \<lparr>le_rank = 3, le_minerUid = 7, le_totalRewards = 1, le_participationCount = 1\<rparr>]"
    by (simp add: leaderboard_def demoHistory_def demoAcc_def utcZone_def dstZone_def
        emptyStore_def startDate_def LocalTime_def UTC_def matchStage_def groupStage_def
        groupOf_def sortStage_def toEntry_def enumerate_eq_zip)
  have b: "leaderboard demoAcc utcZone 3000000000 ''7d'' (Some 10) demoHistory =
     Inr [\<lparr>le_rank = 1, le_minerUid = 3, le_totalRewards = 7, le_participationCount = 1\<rparr>,
          \<lparr>le_rank = 2, le_minerUid = 2, le_totalRewards = 5, le_participationCount = 1\<rparr>,
          \<lparr>le_rank = 3, le_minerUid = 1, le_totalRewards = 3, le_participationCount = 2\<rparr>,
          \<lparr>le_rank = 4, le_minerUid = 7, le_totalRewards = 1, le_participationCount = 1\<rparr>]"
    by (simp add: leaderboard_def demoHistory_def demoAcc_def utcZone_def dstZone_def
        emptyStore_def startDate_def LocalTime_def UTC_def matchStage_def groupStage_def
        groupOf_def sortStage_def toEntry_def enumerate_eq_zip)
  have c: "leaderboard demoAcc utcZone 3000000000 ''30d'' (Some 2) demoHistory =
     Inr [\<lparr>le_rank = 1, le_minerUid = 4, le_totalRewards = 9, le_participationCount = 1\<rparr>,
          \<lparr>le_rank = 2, le_minerUid = 3, le_totalRewards = 7, le_participationCount = 1\<rparr>]"
    by (simp add: leaderboard_def demoHistory_def demoAcc_def utcZone_def dstZone_def
        emptyStore_def startDate_def LocalTime_def UTC_def matchStage_def groupStage_def
        groupOf_def sortStage_def toEntry_def enumerate_eq_zip)
  have d: "leaderboard demoAcc utcZone 3000000000 ''1y'' (Some 10) demoHistory =
     Inr [\<lparr>le_rank = 1, le_minerUid = 7, le_totalRewards = 1, le_participationCount = 1\<rparr>]"
    by (simp add: leaderboard_def demoHistory_def demoAcc_def utcZone_def dstZone_def
        emptyStore_def startDate_def LocalTime_def UTC_def matchStage_def groupStage_def
        groupOf_def sortStage_def toEntry_def enumerate_eq_zip)
  have e: "leaderboard demoAcc dstZone 3000000000 ''24h'' (Some 10) demoHistory =
     Inr [\<lparr>le_rank = 1, le_minerUid = 1, le_totalRewards = 2, le_participationCount = 1\<rparr>,
          \<lparr>le_rank = 2, le_minerUid = 7, le_totalRewards = 1, le_participationCount = 1\<rparr>]"
    by (simp add: leaderboard_def demoHistory_def demoAcc_def utcZone_def dstZone_def
        emptyStore_def startDate_def LocalTime_def UTC_def matchStage_def groupStage_def
        groupOf_def sortStage_def toEntry_def enumerate_eq_zip)
  from leaderboard_ranked[OF c] have
    "length [\<lparr>le_rank = 1, le_minerUid = 4, le_totalRewards = 9 :: rat, le_participationCount = 1\<rparr>,
          \<lparr>le_rank = 2, le_minerUid = 3, le_totalRewards = 7, le_participationCount = 1\<rparr>] =
     min (nat 2)
       (card (mh_minerUid ` set (filter (\<lambda>h. 408000000 \<le> mh_timestamp h)
          (minerHistory demoHistory))))"
    by (simp add: utcZone_def)
  with a b c d e show ?thesis by simp
qed

end
